theory Spec2Isabelle
  imports Complex_Main "HOL-Library.AList" "HOL-Library.Sublist"
begin

section \<open>JavaScript values and failures\<close>

text \<open>
  The values that flow through the generator: what the provider's functions return, what a
  caller's override function returns, what \<^verbatim>\<open>JSON.parse\<close> yields, and what the engine
  assembles (objects keyed by field name, arrays for tuples). A number is a rational or
  \<^verbatim>\<open>NaN\<close>; a \<^verbatim>\<open>Date\<close> is kept apart from the value it was built from.
\<close>

datatype jsval =
    JUndefined
  | JNull
  | JBool bool
  | JNumber rat
  | JNaN
  | JString string
  | JDate jsval
  | JArray "jsval list"
  | JObject "(string \<times> jsval) list"

text \<open>A raised exception: \<^verbatim>\<open>throw new Error(msg)\<close>, a \<^verbatim>\<open>TypeError\<close> of the runtime.\<close>

datatype js_error = Error string | TypeError string

text \<open>\<^verbatim>\<open>Boolean(v)\<close>, the truthiness of a value.\<close>

fun truthy :: "jsval \<Rightarrow> bool" where
  "truthy JUndefined = False"
| "truthy JNull = False"
| "truthy (JBool b) = b"
| "truthy (JNumber r) = (r \<noteq> 0)"
| "truthy JNaN = False"
| "truthy (JString s) = (s \<noteq> [])"
| "truthy (JDate v) = True"
| "truthy (JArray vs) = True"
| "truthy (JObject kvs) = True"

section \<open>Seeds: \<^verbatim>\<open>MockGenerator.setupSeed\<close> and \<^verbatim>\<open>EffectFaker.seed\<close>\<close>

text \<open>
  \<^verbatim>\<open>seed?: string | number\<close>. A string seed is the list of its UTF-16 code units, which
  is what \<^verbatim>\<open>charCodeAt\<close> reads.
\<close>

datatype seed = SeedString "nat list" | SeedNumber int

text \<open>\<^verbatim>\<open>ToInt32\<close>: the value modulo \<open>2^32\<close>, read as two's complement.\<close>

definition toInt32 :: "int \<Rightarrow> int" where
  "toInt32 x = (x + 2 ^ 31) mod 2 ^ 32 - 2 ^ 31"

text \<open>\<^verbatim>\<open>hash << 5\<close>: the operand as an int32, shifted, the result as an int32.\<close>

definition shiftLeft5 :: "int \<Rightarrow> int" where
  "shiftLeft5 h = toInt32 (toInt32 h * 32)"

text \<open>
  The loop
  \<^verbatim>\<open>for (i = 0; i < seed.length; i++) { char = seed.charCodeAt(i);
       hash = (hash << 5) - hash + char; hash = hash & hash; }\<close>
  over the remaining code units. The subtraction and the addition are exact (the operands
  are far below \<open>2^53\<close>); \<^verbatim>\<open>hash & hash\<close> is \<^verbatim>\<open>ToInt32\<close>.
\<close>

fun hashLoop :: "int \<Rightarrow> nat list \<Rightarrow> int" where
  "hashLoop hash [] = hash"
| "hashLoop hash (char # rest) = hashLoop (toInt32 (shiftLeft5 hash - hash + int char)) rest"

text \<open>The \<^verbatim>\<open>seedValue\<close> both functions compute: \<^verbatim>\<open>Math.abs(hash)\<close>, or the number itself.\<close>

fun seedValue :: "seed \<Rightarrow> int" where
  "seedValue (SeedString s) = \<bar>hashLoop 0 s\<bar>"
| "seedValue (SeedNumber n) = n"

text \<open>
  The specification's wording of the same hash: fold \<open>acc = acc * 31 + charCode\<close> with
  wrap-around to the signed 32-bit range, then the absolute value.
\<close>

definition spec_hash :: "nat list \<Rightarrow> int" where
  "spec_hash s = \<bar>foldl (\<lambda>acc c. toInt32 (acc * 31 + int c)) 0 s\<bar>"

text \<open>\<^verbatim>\<open>if (options?.seed)\<close>: the empty string and \<open>0\<close> are falsy.\<close>

fun seed_truthy :: "seed \<Rightarrow> bool" where
  "seed_truthy (SeedString s) = (s \<noteq> [])"
| "seed_truthy (SeedNumber n) = (n \<noteq> 0)"

section \<open>Computations that may raise\<close>

text \<open>
  Every operation of the engine runs on a state, returns the state it leaves behind, and
  either returns a value (\<open>Inr\<close>) or raises (\<open>Inl\<close>). A raise keeps the state reached
  at that point.
\<close>

type_synonym ('s, 'a) js = "'s \<Rightarrow> (js_error + 'a) \<times> 's"

definition returnJS :: "'a \<Rightarrow> ('s, 'a) js" where
  "returnJS a s = (Inr a, s)"

definition throwJS :: "js_error \<Rightarrow> ('s, 'a) js" where
  "throwJS e s = (Inl e, s)"

definition bindJS :: "('s, 'a) js \<Rightarrow> ('a \<Rightarrow> ('s, 'b) js) \<Rightarrow> ('s, 'b) js" where
  "bindJS m k s = (case m s of (Inl e, s') \<Rightarrow> (Inl e, s') | (Inr a, s') \<Rightarrow> k a s')"

definition mapJS :: "('a \<Rightarrow> 'b) \<Rightarrow> ('s, 'a) js \<Rightarrow> ('s, 'b) js" where
  "mapJS f m = bindJS m (\<lambda>a. returnJS (f a))"

section \<open>Strings\<close>

text \<open>\<^verbatim>\<open>s.split(c)\<close> for a one-character separator: never empty, \<^verbatim>\<open>''.split('.')\<close> is \<^verbatim>\<open>['']\<close>.\<close>

fun split_on :: "char \<Rightarrow> string \<Rightarrow> string list" where
  "split_on c [] = [] # []"
| "split_on c (x # xs) =
     (if x = c then [] # split_on c xs
      else (case split_on c xs of
              [] \<Rightarrow> [x] # []
            | segment # segments \<Rightarrow> (x # segment) # segments))"

text \<open>\<^verbatim>\<open>xs.join(sep)\<close>.\<close>

fun join :: "string \<Rightarrow> string list \<Rightarrow> string" where
  "join sep [] = []"
| "join sep [x] = x"
| "join sep (x # y # ys) = x @ sep @ join sep (y # ys)"

text \<open>\<^verbatim>\<open>s.includes(sub)\<close>: \<open>sub\<close> occurs in \<open>s\<close> as a contiguous run.\<close>

fun includes_js :: "string \<Rightarrow> string \<Rightarrow> bool" where
  "includes_js [] sub = (sub = [])"
| "includes_js (x # xs) sub = (prefix sub (x # xs) \<or> includes_js xs sub)"

text \<open>
  \<^verbatim>\<open>s.toLowerCase()\<close> on code units below 256: the ASCII capitals and the Latin-1 capitals
  (\<open>0xC0\<close> to \<open>0xDE\<close> without the multiplication sign \<open>0xD7\<close>) move up by 32.
\<close>

definition lowerChar :: "char \<Rightarrow> char" where
  "lowerChar c =
     (let n = (of_char c :: nat)
      in if (65 \<le> n \<and> n \<le> 90) \<or> (192 \<le> n \<and> n \<le> 222 \<and> n \<noteq> 215)
         then char_of (n + 32) else c)"

definition toLowerCase :: "string \<Rightarrow> string" where
  "toLowerCase s = map lowerChar s"

text \<open>The decimal digits of an array index, as the template \<^verbatim>\<open>`${index}`\<close> prints them.\<close>

definition digitChar :: "nat \<Rightarrow> char" where
  "digitChar d = ''0123456789'' ! d"

fun showNat :: "nat \<Rightarrow> string" where
  "showNat n =
     (if n < 10 then [digitChar n]
      else showNat (n div 10) @ [digitChar (n mod 10)])"

declare showNat.simps [simp del]

section \<open>The provider: \<^verbatim>\<open>@faker-js/faker\<close>\<close>

text \<open>
  The provider is not part of the repository; the engine reaches it through property
  reads and calls only. A property of a \<^verbatim>\<open>Faker\<close> instance is absent (or any other falsy
  value: \<^verbatim>\<open>!fakerFn\<close> cannot tell them apart), or it is an object with properties of its
  own that may also be callable (\<^verbatim>\<open>typeof fakerFn === 'function'\<close>). A call gets the
  arguments and the instance's state \<open>'f\<close> (its random generator), and returns or raises,
  leaving a new state.
\<close>

datatype 'f member =
    Absent
  | Member (callable: "(jsval list \<Rightarrow> ('f, jsval) js) option")
           (props: "(string \<times> 'f member) list")
where
  "callable Absent = None"
| "props Absent = []"

text \<open>\<^verbatim>\<open>obj[part]\<close>.\<close>

fun getProp :: "'f member \<Rightarrow> string \<Rightarrow> 'f member" where
  "getProp Absent part = Absent"
| "getProp (Member c ps) part = (case map_of ps part of None \<Rightarrow> Absent | Some m \<Rightarrow> m)"

text \<open>
  What the engine imports and the runtime gives it: the object \<^verbatim>\<open>allLocales\<close>,
  \<^verbatim>\<open>new Faker({ locale })\<close>, the properties of a \<^verbatim>\<open>Faker\<close> instance, \<^verbatim>\<open>JSON.parse\<close>
  (\<open>None\<close> where it throws), and the coercions \<^verbatim>\<open>String(v)\<close>, \<^verbatim>\<open>Number(v)\<close> and
  \<^verbatim>\<open>new Date(v)\<close>.

  The constructor may draw from \<^verbatim>\<open>Math.random\<close> to start the generator of the new
  instance: it gets the draws to come, and returns the instance and the draws it left.

  \<^verbatim>\<open>allLocales\<close> is an object: its own enumerable properties, in key order, take a locale
  code to a locale definition (these are the keys \<^verbatim>\<open>Object.keys\<close> lists), and it inherits
  the properties of its prototype (\<^verbatim>\<open>constructor\<close>, \<^verbatim>\<open>toString\<close>, \<^verbatim>\<open>valueOf\<close>,
  \<^verbatim>\<open>hasOwnProperty\<close>, \<^verbatim>\<open>__proto__\<close> and so on of \<^verbatim>\<open>Object.prototype\<close>), which
  \<^verbatim>\<open>Object.keys\<close> does not list and a property read does find. The values of both are
  objects or functions, so they are truthy; \<open>'d\<close> is whatever \<^verbatim>\<open>new Faker\<close> is handed
  as \<^verbatim>\<open>locale\<close>.
\<close>

record ('f, 'd) env =
  allLocales :: "(string \<times> 'd) list"
  allLocales_inherited :: "(string \<times> 'd) list"
  newFaker :: "'d \<Rightarrow> (nat \<Rightarrow> rat) \<Rightarrow> 'f \<times> (nat \<Rightarrow> rat)"
  fakerMembers :: "'f \<Rightarrow> (string \<times> 'f member) list"
  JSON_parse :: "string \<Rightarrow> jsval option"
  String_js :: "jsval \<Rightarrow> string"
  Number_js :: "jsval \<Rightarrow> jsval"
  Date_js :: "jsval \<Rightarrow> jsval"

text \<open>
  The property read \<^verbatim>\<open>allLocales[locale]\<close>: an own property if there is one, else what
  the prototype chain has under that name, else \<^verbatim>\<open>undefined\<close> (\<open>None\<close>).
\<close>

definition allLocales_get :: "('f, 'd) env \<Rightarrow> string \<Rightarrow> 'd option" where
  "allLocales_get E name =
     (case map_of (allLocales E) name of
        Some localeDefinition \<Rightarrow> Some localeDefinition
      | None \<Rightarrow> map_of (allLocales_inherited E) name)"

section \<open>Doubles\<close>

text \<open>
  A JavaScript number is an IEEE 754 double, and a finite double is a rational. The result
  of an arithmetic operation is the exact result rounded to the nearest double, ties to the
  even significand. A double has 53 significant bits: from \<open>2 ^ e\<close> up to \<open>2 ^ (e + 1)\<close>
  doubles are \<open>2 ^ (e - 52)\<close> apart, and below \<open>2 ^ (- 1022)\<close> (the subnormal numbers)
  they are \<open>2 ^ (- 1074)\<close> apart. Overflow to \<^verbatim>\<open>Infinity\<close> (from \<open>2 ^ 1024\<close> on) is left
  out: the one product the engine forms is below the length of an array.
\<close>

text \<open>The number of binary digits of a natural number.\<close>

fun bitLength :: "nat \<Rightarrow> nat" where
  "bitLength n = (if n = 0 then 0 else Suc (bitLength (n div 2)))"

declare bitLength.simps [simp del]

text \<open>The \<open>e\<close> with \<open>2 ^ e \<le> x < 2 ^ (e + 1)\<close>, for a positive \<open>x\<close>.\<close>

definition binade :: "rat \<Rightarrow> int" where
  "binade x = (if 1 \<le> x then int (bitLength (nat \<lfloor>x\<rfloor>)) - 1
               else - int (bitLength (nat \<lceil>1 / x\<rceil> - 1)))"

text \<open>The distance between neighbouring doubles around a positive \<open>x\<close>.\<close>

definition quantum :: "rat \<Rightarrow> rat" where
  "quantum x = 2 powi (max (binade x) (- 1022) - 52)"

definition roundHalfEven :: "rat \<Rightarrow> int" where
  "roundHalfEven y =
     (let f = \<lfloor>y\<rfloor>; d = y - of_int f
      in if d < 1 / 2 then f
         else if 1 / 2 < d then f + 1
         else if even f then f else f + 1)"

definition roundDouble :: "rat \<Rightarrow> rat" where
  "roundDouble x =
     (if x = 0 then 0
      else sgn x * (quantum \<bar>x\<bar> * of_int (roundHalfEven (\<bar>x\<bar> / quantum \<bar>x\<bar>))))"

text \<open>\<^verbatim>\<open>a * b\<close> on doubles.\<close>

definition times_double :: "rat \<Rightarrow> rat \<Rightarrow> rat" where
  "times_double a b = roundDouble (a * b)"

section \<open>The engine's state\<close>

text \<open>
  The two private fields of \<^verbatim>\<open>MockGenerator\<close>, and the draws \<^verbatim>\<open>Math.random()\<close>
  will return from now on (the ambient generator of the runtime, which no seed of the
  provider reaches). A draw is a double, at least \<open>0\<close> and less than \<open>1\<close>.
\<close>

record 'f world =
  currentFaker :: 'f
  currentSeed :: "int option"
  random :: "nat \<Rightarrow> rat"

definition Math_random :: "'f world \<Rightarrow> rat \<times> 'f world" where
  "Math_random w = (random w 0, w\<lparr>random := (\<lambda>n. random w (Suc n))\<rparr>)"

section \<open>Schemas, overrides, options\<close>

text \<open>
  \<^verbatim>\<open>AST.AST\<close> of \<^verbatim>\<open>effect/SchemaAST\<close>, with the fields the engine reads: the property
  signatures of a \<^verbatim>\<open>TypeLiteral\<close> (name, already a string, and type), the member types of
  a \<^verbatim>\<open>Union\<close>, the element types of a \<^verbatim>\<open>TupleType\<close>, the \<^verbatim>\<open>from\<close> side of a
  \<^verbatim>\<open>Refinement\<close> and of a \<^verbatim>\<open>Transformation\<close> (with its \<^verbatim>\<open>to\<close> side), the type
  parameters of a \<^verbatim>\<open>Declaration\<close>, the value of a \<^verbatim>\<open>Literal\<close>. Every other node kind is
  \<open>OtherKeyword\<close> with its tag.
\<close>

datatype ast =
    StringKeyword
  | NumberKeyword
  | BooleanKeyword
  | TypeLiteral "(string \<times> ast) list"
  | Union_ast "ast list"
  | TupleType "ast list"
  | Refinement ast
  | Transformation ast ast
  | Declaration "ast list"
  | Literal_ast jsval
  | OtherKeyword string

text \<open>
  \<^verbatim>\<open>FieldMockConfig\<close>. Its \<^verbatim>\<open>value\<close> and \<^verbatim>\<open>constraints\<close> fields are declared but the
  engine never reads them. A caller's function may do anything to the state and may raise.
\<close>

record 'f FieldMockConfig =
  faker :: "string option"
  value_field :: "jsval option"
  transform :: "(jsval \<Rightarrow> ('f world, jsval) js) option"
  constraints :: "(string \<times> jsval) list option"

text \<open>\<^verbatim>\<open>GeneratedAST\<close> without \<^verbatim>\<open>undefined\<close>, by \<^verbatim>\<open>typeof\<close>.\<close>

datatype 'f override =
    FunctionOverride "('f world, jsval) js"
  | StringOverride string
  | ConfigOverride "'f FieldMockConfig"

text \<open>\<^verbatim>\<open>GenerateASTConfig\<close>: \<^verbatim>\<open>config[name]\<close> is \<^verbatim>\<open>undefined\<close> where no entry is.\<close>

type_synonym 'f config = "string \<Rightarrow> 'f override option"

text \<open>\<^verbatim>\<open>locale?: string | LocaleDefinition | Faker\<close>; an object with \<^verbatim>\<open>'seed' in locale\<close> is a \<^verbatim>\<open>Faker\<close>.\<close>

datatype ('f, 'd) locale_option =
    LocaleCode string
  | LocaleDefinition 'd
  | FakerInstance 'f

record ('f, 'd) MockOptions =
  count :: "int option"
  seed :: "seed option"
  locale_field :: "('f, 'd) locale_option option"

text \<open>\<^verbatim>\<open>if (options?.locale)\<close>: the empty string is falsy, an object is not.\<close>

fun locale_truthy :: "('f, 'd) locale_option \<Rightarrow> bool" where
  "locale_truthy (LocaleCode c) = (c \<noteq> [])"
| "locale_truthy (LocaleDefinition d) = True"
| "locale_truthy (FakerInstance f) = True"

section \<open>Calls into the provider\<close>

text \<open>
  A direct call \<^verbatim>\<open>this.currentFaker.a.b(args)\<close>: the properties are read one after the
  other, and the runtime raises a \<^verbatim>\<open>TypeError\<close> where one is missing or the last is not
  a function.
\<close>

fun resolve :: "'f member \<Rightarrow> string list \<Rightarrow> 'f member" where
  "resolve m [] = m"
| "resolve m (part # parts) = resolve (getProp m part) parts"

definition invoke :: "(jsval list \<Rightarrow> ('f, jsval) js) \<Rightarrow> jsval list \<Rightarrow> ('f world, jsval) js" where
  "invoke fn args w =
     (case fn args (currentFaker w) of (r, fk) \<Rightarrow> (r, w\<lparr>currentFaker := fk\<rparr>))"

definition callFaker :: "('f, 'd) env \<Rightarrow> string list \<Rightarrow> jsval list \<Rightarrow> ('f world, jsval) js" where
  "callFaker E path args w =
     (case resolve (Member None (fakerMembers E (currentFaker w))) path of
        Member (Some fn) ps \<Rightarrow> invoke fn args w
      | _ \<Rightarrow> (Inl (TypeError (join ''.'' path @ '' is not a function'')), w))"

text \<open>\<^verbatim>\<open>this.currentFaker.lorem.word()\<close>, the fallback of every lenient path.\<close>

definition lorem_word :: "('f, 'd) env \<Rightarrow> ('f world, jsval) js" where
  "lorem_word E = callFaker E [''lorem'', ''word''] []"

section \<open>\<^verbatim>\<open>executeFakerMethod\<close>\<close>

text \<open>
  The pattern \<^verbatim>\<open>/^([a-zA-Z.]+)(?:\((.+)\))?$/\<close>. The first group is greedy and the
  character after it must be \<^verbatim>\<open>(\<close> or the end, neither of which the class contains, so
  the group is the longest prefix of letters and dots. What is left is empty (no second
  group) or \<^verbatim>\<open>(\<close>, at least one character none of which is a line terminator, and a
  final \<^verbatim>\<open>)\<close>.
\<close>

definition isPathChar :: "char \<Rightarrow> bool" where
  "isPathChar c =
     (let n = (of_char c :: nat)
      in (97 \<le> n \<and> n \<le> 122) \<or> (65 \<le> n \<and> n \<le> 90) \<or> c = CHR ''.'')"

definition isLineTerminator :: "char \<Rightarrow> bool" where
  "isLineTerminator c = (c = CHR 0x0A \<or> c = CHR 0x0D)"

definition matchFakerPath :: "string \<Rightarrow> (string \<times> string option) option" where
  "matchFakerPath fakerPath =
     (let path = takeWhile isPathChar fakerPath;
          rest = dropWhile isPathChar fakerPath
      in if path = [] then None
         else if rest = [] then Some (path, None)
         else if 3 \<le> length rest \<and> hd rest = CHR ''('' \<and> last rest = CHR '')''
                 \<and> list_all (\<lambda>c. \<not> isLineTerminator c) (butlast (tl rest))
              then Some (path, Some (butlast (tl rest)))
         else None)"

text \<open>
  The loop \<^verbatim>\<open>for (const part of pathParts) { fakerFn = fakerFn[part];
  if (!fakerFn) return this.currentFaker.lorem.word(); }\<close>: \<open>None\<close> where it leaves early.
\<close>

fun walk :: "'f member \<Rightarrow> string list \<Rightarrow> 'f member option" where
  "walk fakerFn [] = Some fakerFn"
| "walk fakerFn (part # parts) =
     (case getProp fakerFn part of
        Absent \<Rightarrow> None
      | Member c ps \<Rightarrow> walk (Member c ps) parts)"

text \<open>
  The \<^verbatim>\<open>try\<close> block holds both \<^verbatim>\<open>JSON.parse(argsStr)\<close> and the call with the parsed
  argument, so its \<^verbatim>\<open>catch\<close> (a call with no arguments) also runs when that call raises.
\<close>

definition executeFakerMethod :: "('f, 'd) env \<Rightarrow> string \<Rightarrow> ('f world, jsval) js" where
  "executeFakerMethod E fakerPath w =
     (case matchFakerPath fakerPath of
        None \<Rightarrow> lorem_word E w
      | Some (path, argsStr) \<Rightarrow>
          (case walk (Member None (fakerMembers E (currentFaker w))) (split_on CHR ''.'' path) of
             None \<Rightarrow> lorem_word E w
           | Some fakerFn \<Rightarrow>
               (case callable fakerFn of
                  None \<Rightarrow> lorem_word E w
                | Some fn \<Rightarrow>
                    (case argsStr of
                       None \<Rightarrow> invoke fn [] w
                     | Some a \<Rightarrow>
                         if a = [] then invoke fn [] w
                         else (case JSON_parse E a of
                                 None \<Rightarrow> invoke fn [] w
                               | Some args \<Rightarrow>
                                   (case invoke fn [args] w of
                                      (Inr v, w') \<Rightarrow> (Inr v, w')
                                    | (Inl e, w') \<Rightarrow> invoke fn [] w'))))))"

section \<open>Field names and overrides\<close>

text \<open>\<^verbatim>\<open>path.split('.').pop() || path\<close>: an empty last segment gives the whole path.\<close>

definition getFieldName :: "string \<Rightarrow> string" where
  "getFieldName path =
     (let seg = last (split_on CHR ''.'' path) in if seg \<noteq> [] then seg else path)"

text \<open>\<^verbatim>\<open>fieldConfig?.faker\<close> where it is truthy, and \<^verbatim>\<open>fieldConfig.transform\<close>.\<close>

fun fakerOf :: "'f override option \<Rightarrow> string option" where
  "fakerOf (Some (ConfigOverride c)) =
     (case faker c of None \<Rightarrow> None | Some spec \<Rightarrow> if spec \<noteq> [] then Some spec else None)"
| "fakerOf other = None"

fun transformOf :: "'f override option \<Rightarrow> (jsval \<Rightarrow> ('f world, jsval) js) option" where
  "transformOf (Some (ConfigOverride c)) = transform c"
| "transformOf other = None"

section \<open>The primitive generators\<close>

text \<open>\<^verbatim>\<open>String(v)\<close> and \<^verbatim>\<open>Boolean(v)\<close> as values.\<close>

definition toStringValue :: "('f, 'd) env \<Rightarrow> jsval \<Rightarrow> jsval" where
  "toStringValue E v = JString (String_js E v)"

definition toBoolean :: "jsval \<Rightarrow> jsval" where
  "toBoolean v = JBool (truthy v)"

text \<open>
  Each generator starts with the same three tests: \<^verbatim>\<open>typeof fieldConfig === 'function'\<close>,
  \<^verbatim>\<open>typeof fieldConfig === 'string'\<close>, \<^verbatim>\<open>fieldConfig?.faker\<close>; then its field detection.
\<close>

definition generateString :: "('f, 'd) env \<Rightarrow> string \<Rightarrow> 'f override option \<Rightarrow> ('f world, jsval) js" where
  "generateString E path fieldConfig =
     (case fieldConfig of
        Some (FunctionOverride f) \<Rightarrow> mapJS (toStringValue E) f
      | Some (StringOverride s) \<Rightarrow> mapJS (toStringValue E) (executeFakerMethod E s)
      | _ \<Rightarrow>
          (case fakerOf fieldConfig of
             Some spec \<Rightarrow>
               bindJS (executeFakerMethod E spec) (\<lambda>result.
                 case transformOf fieldConfig of
                   Some t \<Rightarrow> mapJS (toStringValue E) (t result)
                 | None \<Rightarrow> returnJS (toStringValue E result))
           | None \<Rightarrow>
               (let fieldName = toLowerCase (getFieldName path)
                in if includes_js fieldName ''email'' then callFaker E [''internet'', ''email''] []
                   else if includes_js fieldName ''name'' then callFaker E [''person'', ''fullName''] []
                   else if includes_js fieldName ''phone'' then callFaker E [''phone'', ''number''] []
                   else if includes_js fieldName ''address''
                   then callFaker E [''location'', ''streetAddress''] []
                   else if includes_js fieldName ''city'' then callFaker E [''location'', ''city''] []
                   else if includes_js fieldName ''country''
                   then callFaker E [''location'', ''country''] []
                   else if includes_js fieldName ''url'' then callFaker E [''internet'', ''url''] []
                   else if includes_js fieldName ''title'' then callFaker E [''lorem'', ''sentence''] []
                   else if includes_js fieldName ''description''
                   then callFaker E [''lorem'', ''paragraph''] []
                   else lorem_word E)))"

definition generateNumber :: "('f, 'd) env \<Rightarrow> string \<Rightarrow> 'f override option \<Rightarrow> ('f world, jsval) js" where
  "generateNumber E path fieldConfig =
     (case fieldConfig of
        Some (FunctionOverride f) \<Rightarrow> mapJS (Number_js E) f
      | Some (StringOverride s) \<Rightarrow> mapJS (Number_js E) (executeFakerMethod E s)
      | _ \<Rightarrow>
          (case fakerOf fieldConfig of
             Some spec \<Rightarrow>
               bindJS (executeFakerMethod E spec) (\<lambda>result.
                 case transformOf fieldConfig of
                   Some t \<Rightarrow> mapJS (Number_js E) (t result)
                 | None \<Rightarrow> returnJS (Number_js E result))
           | None \<Rightarrow>
               (let fieldName = toLowerCase (getFieldName path)
                in if fieldName = ''id''
                   then callFaker E [''number'', ''int'']
                          [JObject [(''min'', JNumber 1), (''max'', JNumber 100000)]]
                   else if includes_js fieldName ''age''
                   then callFaker E [''number'', ''int'']
                          [JObject [(''min'', JNumber 18), (''max'', JNumber 80)]]
                   else if includes_js fieldName ''price'' \<or> includes_js fieldName ''cost''
                   then callFaker E [''number'', ''float'']
                          [JObject [(''min'', JNumber 10), (''max'', JNumber 1000),
                                    (''fractionDigits'', JNumber 2)]]
                   else if includes_js fieldName ''count'' \<or> includes_js fieldName ''quantity''
                   then callFaker E [''number'', ''int'']
                          [JObject [(''min'', JNumber 1), (''max'', JNumber 100)]]
                   else callFaker E [''number'', ''int''] [])))"

definition generateBoolean :: "('f, 'd) env \<Rightarrow> string \<Rightarrow> 'f override option \<Rightarrow> ('f world, jsval) js" where
  "generateBoolean E path fieldConfig =
     (case fieldConfig of
        Some (FunctionOverride f) \<Rightarrow> mapJS toBoolean f
      | Some (StringOverride s) \<Rightarrow> mapJS toBoolean (executeFakerMethod E s)
      | _ \<Rightarrow>
          (case fakerOf fieldConfig of
             Some spec \<Rightarrow>
               bindJS (executeFakerMethod E spec) (\<lambda>result.
                 case transformOf fieldConfig of
                   Some t \<Rightarrow> mapJS toBoolean (t result)
                 | None \<Rightarrow> returnJS (toBoolean result))
           | None \<Rightarrow>
               callFaker E [''datatype'', ''boolean''] []))"

definition generateDate :: "('f, 'd) env \<Rightarrow> string \<Rightarrow> 'f override option \<Rightarrow> ('f world, jsval) js" where
  "generateDate E path fieldConfig =
     (case fieldConfig of
        Some (FunctionOverride f) \<Rightarrow> mapJS (Date_js E) f
      | Some (StringOverride s) \<Rightarrow> mapJS (Date_js E) (executeFakerMethod E s)
      | _ \<Rightarrow>
          (case fakerOf fieldConfig of
             Some spec \<Rightarrow>
               bindJS (executeFakerMethod E spec) (\<lambda>result.
                 case transformOf fieldConfig of
                   Some t \<Rightarrow> mapJS (Date_js E) (t result)
                 | None \<Rightarrow> returnJS (Date_js E result))
           | None \<Rightarrow>
               (let fieldName = toLowerCase (getFieldName path)
                in if includes_js fieldName ''created'' \<or> includes_js fieldName ''birth''
                   then callFaker E [''date'', ''past''] []
                   else if includes_js fieldName ''updated'' \<or> includes_js fieldName ''modified''
                   then callFaker E [''date'', ''recent''] []
                   else if includes_js fieldName ''expire'' \<or> includes_js fieldName ''due''
                   then callFaker E [''date'', ''future''] []
                   else callFaker E [''date'', ''recent''] [])))"

section \<open>\<^verbatim>\<open>generateFromAST\<close>\<close>

text \<open>
  The type name \<^verbatim>\<open>generateDeclaration\<close> switches on is built from \<^verbatim>\<open>ast._tag\<close>, and the
  tag of a \<^verbatim>\<open>Declaration\<close> node is the string \<^verbatim>\<open>Declaration\<close>.
\<close>

definition declarationTypeName :: "ast list \<Rightarrow> string" where
  "declarationTypeName typeParameters =
     (if 0 < length typeParameters
      then ''Declaration'' @ ''<'' @ join '', '' (map (\<lambda>p. ''unknown'') typeParameters) @ ''>''
      else ''Declaration'')"

lemma size_nth_less: "i < length ts \<Longrightarrow> size (ts ! i) < Suc (size_list size ts)"
  by (metis less_Suc_eq less_imp_le nth_mem size_list_estimation' not_less)

text \<open>
  The five mutually recursive methods. \<^verbatim>\<open>generateObject\<close> carries the object built so far
  (\<^verbatim>\<open>result[fieldName] = ...\<close> replaces the value of a key that is there, and appends a
  new key); \<^verbatim>\<open>generateTuple\<close> carries the index of the next element. In \<^verbatim>\<open>generateUnion\<close>
  the index is \<^verbatim>\<open>Math.floor\<close> of the double \<^verbatim>\<open>Math.random() * ast.types.length\<close> (the
  rounded product); an index outside the member list reads \<^verbatim>\<open>undefined\<close>, whose \<^verbatim>\<open>_tag\<close>
  is a \<^verbatim>\<open>TypeError\<close>.
\<close>

function (sequential)
  generateFromAST :: "('f, 'd) env \<Rightarrow> 'f config \<Rightarrow> ast \<Rightarrow> string \<Rightarrow> ('f world, jsval) js"
  and generateObject ::
    "('f, 'd) env \<Rightarrow> 'f config \<Rightarrow> (string \<times> ast) list \<Rightarrow> string \<Rightarrow> (string \<times> jsval) list
       \<Rightarrow> ('f world, jsval) js"
  and generateUnion :: "('f, 'd) env \<Rightarrow> 'f config \<Rightarrow> ast list \<Rightarrow> string \<Rightarrow> ('f world, jsval) js"
  and generateTuple ::
    "('f, 'd) env \<Rightarrow> 'f config \<Rightarrow> ast list \<Rightarrow> string \<Rightarrow> nat \<Rightarrow> ('f world, jsval list) js"
  and generateDeclaration ::
    "('f, 'd) env \<Rightarrow> 'f config \<Rightarrow> ast list \<Rightarrow> string \<Rightarrow> ('f world, jsval) js"
where
  "generateFromAST E config StringKeyword path w =
     generateString E path (config (getFieldName path)) w"
| "generateFromAST E config NumberKeyword path w =
     generateNumber E path (config (getFieldName path)) w"
| "generateFromAST E config BooleanKeyword path w =
     generateBoolean E path (config (getFieldName path)) w"
| "generateFromAST E config (TypeLiteral propertySignatures) path w =
     generateObject E config propertySignatures path [] w"
| "generateFromAST E config (Union_ast types) path w = generateUnion E config types path w"
| "generateFromAST E config (TupleType elements) path w =
     (case generateTuple E config elements path 0 w of
        (Inl e, w') \<Rightarrow> (Inl e, w')
      | (Inr vs, w') \<Rightarrow> (Inr (JArray vs), w'))"
| "generateFromAST E config (Refinement from) path w = generateFromAST E config from path w"
| "generateFromAST E config (Transformation from to) path w =
     generateFromAST E config from path w"
| "generateFromAST E config (Declaration typeParameters) path w =
     generateDeclaration E config typeParameters path w"
| "generateFromAST E config (Literal_ast v) path w = lorem_word E w"
| "generateFromAST E config (OtherKeyword tag) path w = lorem_word E w"
| "generateObject E config [] basePath result w = (Inr (JObject result), w)"
| "generateObject E config ((fieldName, type) # rest) basePath result w =
     (case generateFromAST E config type
             (if basePath \<noteq> [] then basePath @ ''.'' @ fieldName else fieldName) w of
        (Inl e, w') \<Rightarrow> (Inl e, w')
      | (Inr v, w') \<Rightarrow>
          generateObject E config rest basePath (AList.update fieldName v result) w')"
| "generateUnion E config types path w =
     (case Math_random w of
        (r, w') \<Rightarrow>
          (let i = \<lfloor>times_double r (of_nat (length types))\<rfloor>
           in if 0 \<le> i \<and> nat i < length types
              then (case types ! nat i of
                      Literal_ast literal \<Rightarrow> (Inr literal, w')
                    | randomType \<Rightarrow> generateFromAST E config randomType path w')
              else (Inl (TypeError ''randomType is undefined''), w')))"
| "generateTuple E config [] path index w = (Inr [], w)"
| "generateTuple E config (element # rest) path index w =
     (case generateFromAST E config element (path @ ''['' @ showNat index @ '']'') w of
        (Inl e, w') \<Rightarrow> (Inl e, w')
      | (Inr v, w') \<Rightarrow>
          (case generateTuple E config rest path (Suc index) w' of
             (Inl e, w'') \<Rightarrow> (Inl e, w'')
           | (Inr vs, w'') \<Rightarrow> (Inr (v # vs), w'')))"
| "generateDeclaration E config typeParameters path w =
     (let typeName = declarationTypeName typeParameters
      in if typeName = ''Date'' then generateDate E path (config (getFieldName path)) w
         else if typeName = ''UUID'' then callFaker E [''string'', ''uuid''] [] w
         else if typeName = ''ULID'' then callFaker E [''string'', ''alphanumeric''] [JNumber 26] w
         else if typeName = ''Email'' then callFaker E [''internet'', ''email''] [] w
         else if typeName = ''URL'' then callFaker E [''internet'', ''url''] [] w
         else (case typeParameters of
                 first # others \<Rightarrow> generateFromAST E config first path w
               | [] \<Rightarrow> lorem_word E w))"
  by pat_completeness auto
termination
  apply (relation "measure (\<lambda>x. case x of
      Inl (Inl (E, config, a, path, w)) \<Rightarrow> 2 * size a + 1
    | Inl (Inr (E, config, ps, basePath, result, w)) \<Rightarrow> 2 * size_list (size_prod (\<lambda>n. 0) size) ps + 1
    | Inr (Inl (E, config, ts, path, w)) \<Rightarrow> 2 * size_list size ts + 2
    | Inr (Inr (Inl (E, config, ts, path, index, w))) \<Rightarrow> 2 * size_list size ts + 1
    | Inr (Inr (Inr (E, config, ts, path, w))) \<Rightarrow> 2 * size_list size ts + 2)")
  apply simp_all
  apply (auto dest: size_nth_less)
  done

section \<open>Seeding and locale selection\<close>

text \<open>\<^verbatim>\<open>this.currentFaker.seed([seedValue])\<close>.\<close>

definition seedFaker :: "('f, 'd) env \<Rightarrow> int \<Rightarrow> ('f world, unit) js" where
  "seedFaker E v = mapJS (\<lambda>r. ()) (callFaker E [''seed''] [JArray [JNumber (of_int v)]])"

definition setSeed :: "('f, 'd) env \<Rightarrow> int \<Rightarrow> ('f world, unit) js" where
  "setSeed E v w = seedFaker E v (w\<lparr>currentSeed := Some v\<rparr>)"

definition setupSeed :: "('f, 'd) env \<Rightarrow> seed \<Rightarrow> ('f world, unit) js" where
  "setupSeed E sd w = seedFaker E (seedValue sd) (w\<lparr>currentSeed := Some (seedValue sd)\<rparr>)"

text \<open>
  The value \<^verbatim>\<open>EffectFaker.seed\<close> computes, by the same loop written out a second time,
  before it stores it, seeds the imported instance and hands it to \<^verbatim>\<open>setSeed\<close>.
\<close>

definition EffectFaker_seedValue :: "seed \<Rightarrow> int" where
  "EffectFaker_seedValue sd = (case sd of SeedString s \<Rightarrow> \<bar>hashLoop 0 s\<bar> | SeedNumber n \<Rightarrow> n)"

text \<open>
  The message of the error \<^verbatim>\<open>setupLocale\<close> throws when \<^verbatim>\<open>allLocales[locale]\<close> is falsy;
  it lists \<^verbatim>\<open>Object.keys(allLocales)\<close>.
\<close>

definition localeNotFound :: "('f, 'd) env \<Rightarrow> string \<Rightarrow> js_error" where
  "localeNotFound E code =
     Error (''Locale '' @ [CHR 0x27] @ code @ [CHR 0x27] @ '' not found. Available locales: ''
            @ join '', '' (map fst (allLocales E)))"

definition reapplySeed :: "('f, 'd) env \<Rightarrow> ('f world, unit) js" where
  "reapplySeed E w = (case currentSeed w of Some v \<Rightarrow> seedFaker E v w | None \<Rightarrow> (Inr (), w))"

text \<open>\<^verbatim>\<open>this.currentFaker = new Faker({ locale: localeDefinition })\<close>.\<close>

definition constructFaker :: "('f, 'd) env \<Rightarrow> 'd \<Rightarrow> 'f world \<Rightarrow> 'f world" where
  "constructFaker E localeDefinition w =
     (case newFaker E localeDefinition (random w) of
        (fk, draws) \<Rightarrow> w\<lparr>currentFaker := fk, random := draws\<rparr>)"

definition setupLocale :: "('f, 'd) env \<Rightarrow> ('f, 'd) locale_option \<Rightarrow> ('f world, unit) js" where
  "setupLocale E loc w =
     (case loc of
        LocaleCode code \<Rightarrow>
          (case allLocales_get E code of
             Some localeDefinition \<Rightarrow> reapplySeed E (constructFaker E localeDefinition w)
           | None \<Rightarrow> (Inl (localeNotFound E code), w))
      | FakerInstance fk \<Rightarrow> reapplySeed E (w\<lparr>currentFaker := fk\<rparr>)
      | LocaleDefinition d \<Rightarrow> reapplySeed E (constructFaker E d w))"

section \<open>\<^verbatim>\<open>generateSync\<close>\<close>

text \<open>The loop \<^verbatim>\<open>for (let i = 0; i < count; i++)\<close> with the results pushed so far.\<close>

function generateLoop ::
  "('f, 'd) env \<Rightarrow> 'f config \<Rightarrow> ast \<Rightarrow> int \<Rightarrow> int \<Rightarrow> jsval list \<Rightarrow> ('f world, jsval list) js" where
  "generateLoop E config schema n i results w =
     (if i < n
      then (case generateFromAST E config schema [] w of
              (Inl e, w') \<Rightarrow> (Inl e, w')
            | (Inr mockData, w') \<Rightarrow> generateLoop E config schema n (i + 1) (results @ [mockData]) w')
      else (Inr results, w))"
  by pat_completeness auto
termination
  by (relation "measure (\<lambda>(E, config, schema, n, i, results, w). nat (n - i))") auto

declare generateLoop.simps [simp del]

text \<open>\<^verbatim>\<open>options?.count ?? 1\<close>, \<^verbatim>\<open>if (options?.locale)\<close>, \<^verbatim>\<open>if (options?.seed)\<close>.\<close>

definition countOf :: "('f, 'd) MockOptions option \<Rightarrow> int" where
  "countOf options = (case options of None \<Rightarrow> 1 | Some opts \<Rightarrow> (case count opts of None \<Rightarrow> 1 | Some n \<Rightarrow> n))"

definition localeStep :: "('f, 'd) env \<Rightarrow> ('f, 'd) MockOptions option \<Rightarrow> ('f world, unit) js" where
  "localeStep E options =
     (case options of
        None \<Rightarrow> returnJS ()
      | Some opts \<Rightarrow>
          (case locale_field opts of
             None \<Rightarrow> returnJS ()
           | Some loc \<Rightarrow> if locale_truthy loc then setupLocale E loc else returnJS ()))"

definition seedStep :: "('f, 'd) env \<Rightarrow> ('f, 'd) MockOptions option \<Rightarrow> ('f world, unit) js" where
  "seedStep E options =
     (case options of
        None \<Rightarrow> returnJS ()
      | Some opts \<Rightarrow>
          (case seed opts of
             None \<Rightarrow> returnJS ()
           | Some sd \<Rightarrow> if seed_truthy sd then setupSeed E sd else returnJS ()))"

definition generateSync ::
  "('f, 'd) env \<Rightarrow> ast \<Rightarrow> 'f config \<Rightarrow> ('f, 'd) MockOptions option \<Rightarrow> ('f world, jsval list) js" where
  "generateSync E schema config options =
     bindJS (localeStep E options) (\<lambda>u.
     bindJS (seedStep E options) (\<lambda>u.
       generateLoop E config schema (countOf options) 0 []))"

section \<open>The specification's wording\<close>

text \<open>
  The generation steps as the specification orders them, \<^emph>\<open>per requested item\<close>: switch the
  locale, reseed, evaluate the root at the empty path; the items are collected in order.
\<close>

fun repeatJS :: "nat \<Rightarrow> ('s, 'a) js \<Rightarrow> ('s, 'a list) js" where
  "repeatJS 0 m = returnJS []"
| "repeatJS (Suc k) m = bindJS m (\<lambda>v. mapJS (\<lambda>vs. v # vs) (repeatJS k m))"

definition spec_item ::
  "('f, 'd) env \<Rightarrow> ast \<Rightarrow> 'f config \<Rightarrow> ('f, 'd) MockOptions option \<Rightarrow> ('f world, jsval) js" where
  "spec_item E schema config options =
     bindJS (localeStep E options) (\<lambda>u.
     bindJS (seedStep E options) (\<lambda>u.
       generateFromAST E config schema []))"

definition spec_generate_per_item ::
  "('f, 'd) env \<Rightarrow> ast \<Rightarrow> 'f config \<Rightarrow> ('f, 'd) MockOptions option \<Rightarrow> ('f world, jsval list) js" where
  "spec_generate_per_item E schema config options =
     repeatJS (nat (countOf options)) (spec_item E schema config options)"

text \<open>
  The override precedence as the specification words it: an explicit function, else a
  method-spec string, else a structured override with a generator spec, that is a
  non-empty string (its transform applied after the invocation), else whatever comes next.
\<close>

definition spec_precedence ::
  "('f, 'd) env \<Rightarrow> (jsval \<Rightarrow> jsval) \<Rightarrow> 'f override option \<Rightarrow> ('f world, jsval) js
     \<Rightarrow> ('f world, jsval) js" where
  "spec_precedence E coerce ov otherwise =
     (case ov of
        None \<Rightarrow> otherwise
      | Some (FunctionOverride f) \<Rightarrow> mapJS coerce f
      | Some (StringOverride s) \<Rightarrow> mapJS coerce (executeFakerMethod E s)
      | Some (ConfigOverride c) \<Rightarrow>
          (case faker c of
             None \<Rightarrow> otherwise
           | Some spec \<Rightarrow>
               if spec = [] then otherwise
               else bindJS (executeFakerMethod E spec) (\<lambda>result.
                      case transform c of
                        None \<Rightarrow> returnJS (coerce result)
                      | Some t \<Rightarrow> mapJS coerce (t result))))"

text \<open>An override that decides the value: a function, a string, or a generator spec.\<close>

fun decides :: "'f override option \<Rightarrow> bool" where
  "decides None = False"
| "decides (Some (FunctionOverride f)) = True"
| "decides (Some (StringOverride s)) = True"
| "decides (Some (ConfigOverride c)) = (case faker c of None \<Rightarrow> False | Some spec \<Rightarrow> spec \<noteq> [])"

text \<open>
  The field-name heuristic table of each primitive kind, first match wins, and the
  default of the kind where no entry matches.
\<close>

datatype primitive = PString | PNumber | PBoolean

fun keyword :: "primitive \<Rightarrow> ast" where
  "keyword PString = StringKeyword"
| "keyword PNumber = NumberKeyword"
| "keyword PBoolean = BooleanKeyword"

fun spec_coerce :: "('f, 'd) env \<Rightarrow> primitive \<Rightarrow> jsval \<Rightarrow> jsval" where
  "spec_coerce E PString = toStringValue E"
| "spec_coerce E PNumber = Number_js E"
| "spec_coerce E PBoolean = toBoolean"

definition contains :: "string \<Rightarrow> string \<Rightarrow> bool" where
  "contains sub name = includes_js name sub"

definition minMax :: "rat \<Rightarrow> rat \<Rightarrow> jsval" where
  "minMax lo hi = JObject [(''min'', JNumber lo), (''max'', JNumber hi)]"

fun spec_table :: "('f, 'd) env \<Rightarrow> primitive \<Rightarrow> ((string \<Rightarrow> bool) \<times> ('f world, jsval) js) list" where
  "spec_table E PString =
     [(contains ''email'', callFaker E [''internet'', ''email''] []),
      (contains ''name'', callFaker E [''person'', ''fullName''] []),
      (contains ''phone'', callFaker E [''phone'', ''number''] []),
      (contains ''address'', callFaker E [''location'', ''streetAddress''] []),
      (contains ''city'', callFaker E [''location'', ''city''] []),
      (contains ''country'', callFaker E [''location'', ''country''] []),
      (contains ''url'', callFaker E [''internet'', ''url''] []),
      (contains ''title'', callFaker E [''lorem'', ''sentence''] []),
      (contains ''description'', callFaker E [''lorem'', ''paragraph''] [])]"
| "spec_table E PNumber =
     [((\<lambda>name. name = ''id''), callFaker E [''number'', ''int''] [minMax 1 100000]),
      (contains ''age'', callFaker E [''number'', ''int''] [minMax 18 80]),
      ((\<lambda>name. contains ''price'' name \<or> contains ''cost'' name),
         callFaker E [''number'', ''float'']
           [JObject [(''min'', JNumber 10), (''max'', JNumber 1000), (''fractionDigits'', JNumber 2)]]),
      ((\<lambda>name. contains ''count'' name \<or> contains ''quantity'' name),
         callFaker E [''number'', ''int''] [minMax 1 100])]"
| "spec_table E PBoolean = []"

fun spec_default :: "('f, 'd) env \<Rightarrow> primitive \<Rightarrow> ('f world, jsval) js" where
  "spec_default E PString = callFaker E [''lorem'', ''word''] []"
| "spec_default E PNumber = callFaker E [''number'', ''int''] []"
| "spec_default E PBoolean = callFaker E [''datatype'', ''boolean''] []"

definition spec_heuristic :: "('f, 'd) env \<Rightarrow> primitive \<Rightarrow> string \<Rightarrow> ('f world, jsval) js" where
  "spec_heuristic E k name =
     (case find (\<lambda>entry. fst entry name) (spec_table E k) of
        Some entry \<Rightarrow> snd entry
      | None \<Rightarrow> spec_default E k)"


text \<open>What \<^verbatim>\<open>generateUnion\<close> does with the member it picked.\<close>

definition evaluateMember ::
  "('f, 'd) env \<Rightarrow> 'f config \<Rightarrow> string \<Rightarrow> ast \<Rightarrow> ('f world, jsval) js" where
  "evaluateMember E config path randomType w =
     (case randomType of
        Literal_ast literal \<Rightarrow> (Inr literal, w)
      | _ \<Rightarrow> generateFromAST E config randomType path w)"

section \<open>Runs that depend on the provider alone\<close>

text \<open>
  A schema in which the engine meets no \<^verbatim>\<open>Union\<close> node on its way: the members of a
  \<^verbatim>\<open>TypeLiteral\<close> and a \<^verbatim>\<open>TupleType\<close>, the \<^verbatim>\<open>from\<close> side of a refinement and of a
  transformation, the first type parameter of a declaration.
\<close>

fun unionFree :: "ast \<Rightarrow> bool" where
  "unionFree (TypeLiteral propertySignatures) = (\<forall>p \<in> set propertySignatures. unionFree (snd p))"
| "unionFree (Union_ast types) = False"
| "unionFree (TupleType elements) = (\<forall>t \<in> set elements. unionFree t)"
| "unionFree (Refinement from) = unionFree from"
| "unionFree (Transformation from to) = unionFree from"
| "unionFree (Declaration typeParameters) =
     (case typeParameters of [] \<Rightarrow> True | first # others \<Rightarrow> unionFree first)"
| "unionFree other = True"

text \<open>
  A computation that reads nothing of the state but the provider instance and changes
  nothing else: neither \<^verbatim>\<open>Math.random\<close> nor the stored seed.
\<close>

definition providerOnly :: "('f world, 'a) js \<Rightarrow> bool" where
  "providerOnly m =
     (\<exists>g. \<forall>w. m w = (case g (currentFaker w) of (r, fk) \<Rightarrow> (r, w\<lparr>currentFaker := fk\<rparr>)))"

text \<open>A configuration whose override and transform functions are of that kind.\<close>

definition pureConfig :: "'f config \<Rightarrow> bool" where
  "pureConfig config =
     (\<forall>name. case config name of
        None \<Rightarrow> True
      | Some (FunctionOverride f) \<Rightarrow> providerOnly f
      | Some (StringOverride s) \<Rightarrow> True
      | Some (ConfigOverride c) \<Rightarrow>
          (case transform c of None \<Rightarrow> True | Some t \<Rightarrow> \<forall>v. providerOnly (t v)))"

text \<open>
  The instance \<^verbatim>\<open>seed([v])\<close> leaves, and a provider on which seeding always succeeds and
  makes irrelevant an earlier seeding and the draws the constructor took.
\<close>

definition seedState :: "('f, 'd) env \<Rightarrow> int \<Rightarrow> 'f \<Rightarrow> 'f" where
  "seedState E v fk =
     currentFaker (snd (seedFaker E v \<lparr>currentFaker = fk, currentSeed = None, random = (\<lambda>n. 0)\<rparr>))"

definition seedReliable :: "('f, 'd) env \<Rightarrow> bool" where
  "seedReliable E =
     ((\<forall>v w. fst (seedFaker E v w) = Inr ())
      \<and> (\<forall>v v0 fk. seedState E v (seedState E v0 fk) = seedState E v fk)
      \<and> (\<forall>v d draws1 draws2.
            seedState E v (fst (newFaker E d draws1)) = seedState E v (fst (newFaker E d draws2))))"

section \<open>A small provider for concrete runs\<close>

text \<open>
  The locale codes are \<^verbatim>\<open>en\<close> and \<^verbatim>\<open>fr\<close>, on an object that inherits from
  \<^verbatim>\<open>Object.prototype\<close>. An instance is the locale it was made from and a counter that
  every draw advances and \<^verbatim>\<open>seed\<close> resets; a new instance starts at \<open>0\<close>, and its
  constructor takes no draw of \<^verbatim>\<open>Math.random\<close>. \<^verbatim>\<open>string.alphanumeric\<close> takes a
  length; the three \<^verbatim>\<open>date\<close> functions return dates that tell which of them was called.
  \<^verbatim>\<open>helpers.arrayElement\<close> raises when it is called without an array, as the library's
  does; \<^verbatim>\<open>number.int\<close> takes nothing or an options object and raises on anything else.
  \<^verbatim>\<open>JSON.parse\<close> and \<^verbatim>\<open>Number\<close> are cut down to unsigned decimal numbers.
\<close>

type_synonym toyFaker = "string \<times> nat"

definition toyWord :: "jsval list \<Rightarrow> (toyFaker, jsval) js" where
  "toyWord args fk = (Inr (JString (fst fk @ ''-word'' @ showNat (snd fk))), (fst fk, Suc (snd fk)))"

definition toyEmail :: "jsval list \<Rightarrow> (toyFaker, jsval) js" where
  "toyEmail args fk =
     (Inr (JString (''user'' @ showNat (snd fk) @ ''@example.'' @ fst fk)), (fst fk, Suc (snd fk)))"

definition toyInt :: "jsval list \<Rightarrow> (toyFaker, jsval) js" where
  "toyInt args fk =
     (case args of
        [] \<Rightarrow> (Inr (JNumber (of_nat (snd fk))), (fst fk, Suc (snd fk)))
      | [JObject options] \<Rightarrow> (Inr (JNumber (of_nat (snd fk))), (fst fk, Suc (snd fk)))
      | _ \<Rightarrow> (Inl (Error ''number.int: options expected''), fk))"

definition toyBoolean :: "jsval list \<Rightarrow> (toyFaker, jsval) js" where
  "toyBoolean args fk = (Inr (JBool (even (snd fk))), (fst fk, Suc (snd fk)))"

definition toyArrayElement :: "jsval list \<Rightarrow> (toyFaker, jsval) js" where
  "toyArrayElement args fk =
     (case args of
        [JArray (x # xs)] \<Rightarrow> (Inr ((x # xs) ! (snd fk mod length (x # xs))), (fst fk, Suc (snd fk)))
      | _ \<Rightarrow> (Inl (Error ''helpers.arrayElement: no array''), fk))"

definition toyAlphanumeric :: "jsval list \<Rightarrow> (toyFaker, jsval) js" where
  "toyAlphanumeric args fk =
     (case args of
        [JNumber k] \<Rightarrow> (Inr (JString (replicate (nat \<lfloor>k\<rfloor>) CHR ''a'')), (fst fk, Suc (snd fk)))
      | _ \<Rightarrow> (Inr (JString ''a''), (fst fk, Suc (snd fk))))"

definition toyDate :: "string \<Rightarrow> jsval list \<Rightarrow> (toyFaker, jsval) js" where
  "toyDate label args fk =
     (Inr (JDate (JString (label @ showNat (snd fk)))), (fst fk, Suc (snd fk)))"

definition toySeed :: "jsval list \<Rightarrow> (toyFaker, jsval) js" where
  "toySeed args fk =
     (case args of
        [JArray [JNumber r]] \<Rightarrow> (Inr JUndefined, (fst fk, nat \<lfloor>r\<rfloor>))
      | _ \<Rightarrow> (Inr JUndefined, fk))"

definition toyMembers :: "(string \<times> toyFaker member) list" where
  "toyMembers =
     [(''seed'', Member (Some toySeed) []),
      (''lorem'', Member None [(''word'', Member (Some toyWord) [])]),
      (''internet'', Member None [(''email'', Member (Some toyEmail) [])]),
      (''number'', Member None [(''int'', Member (Some toyInt) [])]),
      (''datatype'', Member None [(''boolean'', Member (Some toyBoolean) [])]),
      (''string'', Member None [(''alphanumeric'', Member (Some toyAlphanumeric) [])]),
      (''date'', Member None
         [(''past'', Member (Some (toyDate ''past'')) []),
          (''recent'', Member (Some (toyDate ''recent'')) []),
          (''future'', Member (Some (toyDate ''future'')) [])]),
      (''helpers'', Member None [(''arrayElement'', Member (Some toyArrayElement) [])])]"

definition isDigit :: "char \<Rightarrow> bool" where
  "isDigit c = (48 \<le> (of_char c :: nat) \<and> (of_char c :: nat) \<le> 57)"

definition toyParse :: "string \<Rightarrow> jsval option" where
  "toyParse s =
     (if s \<noteq> [] \<and> list_all isDigit s
      then Some (JNumber (of_nat (foldl (\<lambda>acc c. 10 * acc + (of_char c - 48)) 0 s)))
      else None)"

definition toyString :: "jsval \<Rightarrow> string" where
  "toyString v =
     (case v of
        JString s \<Rightarrow> s
      | JNumber r \<Rightarrow> showNat (nat \<lfloor>r\<rfloor>)
      | JBool b \<Rightarrow> (if b then ''true'' else ''false'')
      | JUndefined \<Rightarrow> ''undefined''
      | JNull \<Rightarrow> ''null''
      | JNaN \<Rightarrow> ''NaN''
      | _ \<Rightarrow> ''[object Object]'')"

definition toyNumber :: "jsval \<Rightarrow> jsval" where
  "toyNumber v =
     (case v of
        JNumber r \<Rightarrow> JNumber r
      | JBool b \<Rightarrow> JNumber (if b then 1 else 0)
      | JNull \<Rightarrow> JNumber 0
      | JString s \<Rightarrow> (case toyParse s of Some n \<Rightarrow> n | None \<Rightarrow> JNaN)
      | _ \<Rightarrow> JNaN)"

text \<open>The property names of \<^verbatim>\<open>Object.prototype\<close>.\<close>

definition objectPrototypeNames :: "string list" where
  "objectPrototypeNames =
     [''constructor'', ''__defineGetter__'', ''__defineSetter__'', ''hasOwnProperty'',
      ''__lookupGetter__'', ''__lookupSetter__'', ''isPrototypeOf'', ''propertyIsEnumerable'',
      ''toString'', ''valueOf'', ''__proto__'', ''toLocaleString'']"

definition toyEnv :: "(toyFaker, string) env" where
  "toyEnv =
     \<lparr>allLocales = [(''en'', ''en''), (''fr'', ''fr'')],
      allLocales_inherited =
        map (\<lambda>name. (name, ''Object.prototype.'' @ name)) objectPrototypeNames,
      newFaker = (\<lambda>d draws. ((d, 0), draws)),
      fakerMembers = (\<lambda>fk. toyMembers),
      JSON_parse = toyParse,
      String_js = toyString,
      Number_js = toyNumber,
      Date_js = JDate\<rparr>"

text \<open>
  The engine as constructed, on the default instance; \<^verbatim>\<open>Math.random\<close> returns the listed
  draws in turn and \<open>0\<close> after them.
\<close>

definition drawsOf :: "rat list \<Rightarrow> nat \<Rightarrow> rat" where
  "drawsOf ds n = (if n < length ds then ds ! n else 0)"

definition toyWorld :: "rat list \<Rightarrow> toyFaker world" where
  "toyWorld ds = \<lparr>currentFaker = (''en'', 7), currentSeed = None, random = drawsOf ds\<rparr>"

text \<open>The empty override configuration \<^verbatim>\<open>{}\<close>.\<close>

definition noConfig :: "'f config" where
  "noConfig name = None"

text \<open>
  An override configuration: functions for \<^verbatim>\<open>email\<close>, \<^verbatim>\<open>age\<close> and the empty name, a
  method string for \<^verbatim>\<open>name\<close>, a generator spec with a transform for \<^verbatim>\<open>title\<close>.
\<close>

definition toyConfig :: "toyFaker config" where
  "toyConfig name =
     (if name = ''email'' then Some (FunctionOverride (returnJS (JNumber 25)))
      else if name = ''age'' then Some (FunctionOverride (returnJS (JString ''41'')))
      else if name = [] then Some (FunctionOverride (returnJS (JString ''fixed'')))
      else if name = ''name'' then Some (StringOverride ''string.alphanumeric(3)'')
      else if name = ''title''
      then Some (ConfigOverride
             \<lparr>faker = Some ''lorem.word'', value_field = None,
              transform = Some (\<lambda>v. returnJS (JString (''Dr. '' @ toyString v))),
              constraints = None\<rparr>)
      else None)"

section \<open>The seed hash\<close>

lemma toInt32_mod: "toInt32 x mod 2 ^ 32 = x mod 2 ^ 32"
proof -
  have "((x + 2 ^ 31) mod 2 ^ 32 - 2 ^ 31) mod 2 ^ 32 = (x + 2 ^ 31 - 2 ^ 31) mod (2 ^ 32 :: int)"
    by (rule mod_diff_left_eq)
  then show ?thesis
    by (simp add: toInt32_def)
qed

lemma toInt32_cong: "a mod 2 ^ 32 = b mod 2 ^ 32 \<Longrightarrow> toInt32 a = toInt32 b"
proof -
  assume "a mod 2 ^ 32 = b mod 2 ^ 32"
  then have "(a + 2 ^ 31) mod 2 ^ 32 = (b + 2 ^ 31) mod (2 ^ 32 :: int)"
    by (rule mod_add_cong) simp
  then show ?thesis
    by (simp only: toInt32_def)
qed

lemma shiftLeft5_mod: "shiftLeft5 h mod 2 ^ 32 = (h * 32) mod 2 ^ 32"
proof -
  have "shiftLeft5 h mod 2 ^ 32 = (toInt32 h * 32) mod 2 ^ 32"
    by (simp only: shiftLeft5_def toInt32_mod)
  also have "\<dots> = (toInt32 h mod 2 ^ 32 * 32) mod 2 ^ 32"
    by (simp only: mod_mult_left_eq)
  also have "\<dots> = (h mod 2 ^ 32 * 32) mod 2 ^ 32"
    by (simp only: toInt32_mod)
  also have "\<dots> = (h * 32) mod 2 ^ 32"
    by (simp only: mod_mult_left_eq)
  finally show ?thesis .
qed

lemma toInt32_step: "toInt32 (shiftLeft5 h - h + c) = toInt32 (h * 31 + c)"
proof (rule toInt32_cong)
  have "(shiftLeft5 h - h) mod 2 ^ 32 = (h * 32 - h) mod 2 ^ 32"
    using shiftLeft5_mod by (rule mod_diff_cong) simp
  then have "(shiftLeft5 h - h + c) mod 2 ^ 32 = (h * 32 - h + c) mod 2 ^ 32"
    by (rule mod_add_cong) simp
  moreover have "h * 32 - h + c = h * 31 + c"
    by simp
  ultimately show "(shiftLeft5 h - h + c) mod 2 ^ 32 = (h * 31 + c) mod 2 ^ 32"
    by (simp add: mult.commute)
qed

lemma hashLoop_foldl:
  "hashLoop h s = foldl (\<lambda>acc c. toInt32 (acc * 31 + int c)) h s"
  by (induction s arbitrary: h) (simp_all add: toInt32_step)

section \<open>What the seed does to the engine\<close>

lemma callFaker_currentSeed: "currentSeed (snd (callFaker E p a w)) = currentSeed w"
  by (simp add: callFaker_def invoke_def split: member.splits option.splits prod.splits)

lemma seedFaker_currentSeed: "currentSeed (snd (seedFaker E v w)) = currentSeed w"
  using callFaker_currentSeed [of E "[''seed'']" "[JArray [JNumber (of_int v)]]" w]
  by (auto simp: seedFaker_def mapJS_def bindJS_def returnJS_def split: prod.splits sum.splits)

text \<open>
  C7. The integer derived from a string seed, in \<^verbatim>\<open>setupSeed\<close> and in \<^verbatim>\<open>EffectFaker.seed\<close>
  alike, is the fold \<open>acc * 31 + charCode\<close> over the code units wrapped to the signed
  32-bit range, then the absolute value; a numeric seed is used as it is; and the seed
  \<^verbatim>\<open>setupSeed\<close> stores is that value whatever the state of the engine was.
\<close>

theorem seed_hash_is_fold:
  "seedValue (SeedString s) = spec_hash s
   \<and> EffectFaker_seedValue (SeedString s) = spec_hash s
   \<and> seedValue (SeedNumber n) = n
   \<and> EffectFaker_seedValue (SeedNumber n) = n
   \<and> currentSeed (snd (setupSeed E sd w)) = Some (seedValue sd)"
  by (simp add: spec_hash_def hashLoop_foldl EffectFaker_seedValue_def setupSeed_def
        seedFaker_currentSeed)

section \<open>The loop of \<^verbatim>\<open>generateSync\<close>\<close>

lemma generateLoop_repeat:
  "generateLoop E config schema n i results w =
     (case repeatJS (nat (n - i)) (generateFromAST E config schema []) w of
        (Inl e, w') \<Rightarrow> (Inl e, w')
      | (Inr vs, w') \<Rightarrow> (Inr (results @ vs), w'))"
proof (induction "nat (n - i)" arbitrary: i results w)
  case 0
  then have "\<not> i < n" by simp
  then have "generateLoop E config schema n i results w = (Inr results, w)"
    by (subst generateLoop.simps) simp
  with 0 show ?case
    by (simp add: returnJS_def)
next
  case (Suc k)
  then have lt: "i < n" and k: "k = nat (n - (i + 1))" by simp_all
  have step: "nat (n - i) = Suc (nat (n - (i + 1)))"
    using lt by simp
  have "generateLoop E config schema n i results w =
      (case generateFromAST E config schema [] w of
              (Inl e, w') \<Rightarrow> (Inl e, w')
            | (Inr mockData, w') \<Rightarrow> generateLoop E config schema n (i + 1) (results @ [mockData]) w')"
    using lt by (subst generateLoop.simps) simp
  also have "\<dots> = (case repeatJS (Suc k) (generateFromAST E config schema []) w of
        (Inl e, w') \<Rightarrow> (Inl e, w')
      | (Inr vs, w') \<Rightarrow> (Inr (results @ vs), w'))"
    by (simp only: Suc.hyps(1) [OF k] k repeatJS.simps)
      (simp add: bindJS_def mapJS_def returnJS_def split: prod.splits sum.splits)
  finally show ?case
    by (simp only: step k)
qed

lemma generateSync_repeat:
  "generateSync E schema config options =
     bindJS (localeStep E options) (\<lambda>u.
     bindJS (seedStep E options) (\<lambda>u.
       repeatJS (nat (countOf options)) (generateFromAST E config schema [])))"
proof -
  have "generateLoop E config schema n 0 [] = repeatJS (nat n) (generateFromAST E config schema [])" for n
    by (rule ext) (simp add: generateLoop_repeat split: prod.splits sum.splits)
  then show ?thesis
    by (simp add: generateSync_def)
qed

lemmas monad_defs = bindJS_def returnJS_def mapJS_def throwJS_def

lemmas toy_defs = toyEnv_def objectPrototypeNames_def toyWorld_def toyMembers_def toyWord_def
  toyEmail_def toyInt_def
  toyBoolean_def toyArrayElement_def toyAlphanumeric_def toyDate_def toySeed_def toyParse_def
  toyString_def toyNumber_def drawsOf_def noConfig_def isDigit_def toyConfig_def

lemmas engine_defs = callFaker_def invoke_def lorem_word_def seedFaker_def setupSeed_def
  setSeed_def reapplySeed_def constructFaker_def setupLocale_def localeStep_def seedStep_def countOf_def
  generateString_def generateNumber_def generateBoolean_def generateDate_def
  getFieldName_def toLowerCase_def lowerChar_def toStringValue_def toBoolean_def
  executeFakerMethod_def matchFakerPath_def isPathChar_def isLineTerminator_def
  declarationTypeName_def Math_random_def localeNotFound_def allLocales_get_def
  times_double_def

lemmas char_evals = showNat.simps digitChar_def

lemma repeatJS_numeral:
  "repeatJS (numeral k) m = bindJS m (\<lambda>v. mapJS (\<lambda>vs. v # vs) (repeatJS (pred_numeral k) m))"
  by (simp add: numeral_eq_Suc)

text \<open>
  C3, as the code has it. The locale switch and the reseed run once per call, before the
  loop; only the evaluation of the root at the empty path is repeated, once per requested
  item, each evaluation starting from the state the one before it left.
\<close>

theorem generateSync_setup_once:
  "generateSync E schema config options =
     bindJS (localeStep E options) (\<lambda>u.
     bindJS (seedStep E options) (\<lambda>u.
       repeatJS (nat (countOf options)) (generateFromAST E config schema [])))"
  by (rule generateSync_repeat)

text \<open>
  C3 as stated fails: with seed 5 and count 2 the engine returns two different words,
  where a reseed before each item would return the first word twice.
\<close>

theorem per_item_reseed_counterexample:
  "fst (generateSync toyEnv StringKeyword noConfig
          (Some \<lparr>count = Some 2, seed = Some (SeedNumber 5), locale_field = None\<rparr>) (toyWorld []))
     = Inr [JString ''en-word5'', JString ''en-word6'']
   \<and> fst (spec_generate_per_item toyEnv StringKeyword noConfig
          (Some \<lparr>count = Some 2, seed = Some (SeedNumber 5), locale_field = None\<rparr>) (toyWorld []))
     = Inr [JString ''en-word5'', JString ''en-word5'']"
  by (simp add: generateSync_repeat spec_generate_per_item_def spec_item_def repeatJS_numeral
      monad_defs toy_defs engine_defs char_evals)

section \<open>Locale codes\<close>

lemma allLocales_get_None:
  assumes "name \<notin> fst ` set (allLocales E)" and "name \<notin> fst ` set (allLocales_inherited E)"
  shows "allLocales_get E name = None"
proof -
  have "map_of (allLocales E) name = None" and "map_of (allLocales_inherited E) name = None"
    using assms by (simp_all add: map_of_eq_None_iff)
  then show ?thesis
    by (simp add: allLocales_get_def)
qed

text \<open>
  A name that is no locale code and that \<^verbatim>\<open>allLocales\<close> inherits passes the test
  \<^verbatim>\<open>if (localeDefinition)\<close>: nothing is raised, and the provider is replaced by a
  \<^verbatim>\<open>Faker\<close> made from the inherited value (and reseeded with the active seed).
\<close>

lemma inherited_name_accepted:
  assumes "code \<noteq> []"
    and "code \<notin> fst ` set (allLocales E)"
    and "map_of (allLocales_inherited E) code = Some member"
    and "locale_field opts = Some (LocaleCode code)"
  shows "localeStep E (Some opts) w = reapplySeed E (constructFaker E member w)"
proof -
  have "map_of (allLocales E) code = None"
    using assms(2) by (simp add: map_of_eq_None_iff)
  then have "allLocales_get E code = Some member"
    using assms(3) by (simp add: allLocales_get_def)
  then show ?thesis
    using assms(1,4) by (simp add: localeStep_def setupLocale_def)
qed

lemma constructor_locale_accepted:
  "''constructor'' \<notin> fst ` set (allLocales toyEnv)
   \<and> generateSync toyEnv StringKeyword noConfig
       (Some \<lparr>count = None, seed = None, locale_field = Some (LocaleCode ''constructor'')\<rparr>)
       (toyWorld [])
     = (Inr [JString ''Object.prototype.constructor-word0''],
        (toyWorld [])\<lparr>currentFaker := (''Object.prototype.constructor'', 1)\<rparr>)"
  by (simp add: generateSync_repeat monad_defs toy_defs engine_defs char_evals)

text \<open>
  C6, as the code has it. A call whose locale option is a non-empty string that is neither
  a key of \<^verbatim>\<open>allLocales\<close> nor the name of a property \<^verbatim>\<open>allLocales\<close> inherits raises the
  error whose message lists the known codes; it produces no item and leaves the engine as
  it was.
\<close>

theorem unknown_locale_fails:
  assumes "code \<noteq> []"
    and "code \<notin> fst ` set (allLocales E)"
    and "code \<notin> fst ` set (allLocales_inherited E)"
    and "locale_field opts = Some (LocaleCode code)"
  shows "generateSync E schema config (Some opts) w =
           (Inl (Error (''Locale '' @ [CHR 0x27] @ code @ [CHR 0x27]
                        @ '' not found. Available locales: ''
                        @ join '', '' (map fst (allLocales E)))), w)"
proof -
  have "allLocales_get E code = None"
    using assms(2,3) by (rule allLocales_get_None)
  then have "localeStep E (Some opts) w = (Inl (localeNotFound E code), w)"
    using assms(1,4) by (simp add: localeStep_def setupLocale_def)
  then show ?thesis
    by (simp add: generateSync_def bindJS_def localeNotFound_def)
qed

theorem unknown_locale_fails_witness:
  "''xx'' \<noteq> [] \<and> ''xx'' \<notin> fst ` set (allLocales toyEnv)
   \<and> ''xx'' \<notin> fst ` set (allLocales_inherited toyEnv)
   \<and> generateSync toyEnv StringKeyword noConfig
       (Some \<lparr>count = Some 3, seed = Some (SeedNumber 5), locale_field = Some (LocaleCode ''xx'')\<rparr>)
       (toyWorld [])
     = (Inl (Error (''Locale '' @ [CHR 0x27] @ ''xx'' @ [CHR 0x27]
                    @ '' not found. Available locales: en, fr'')), toyWorld [])"
  using unknown_locale_fails [of "''xx''" toyEnv
      "\<lparr>count = Some 3, seed = Some (SeedNumber 5), locale_field = Some (LocaleCode ''xx'')\<rparr>"
      StringKeyword noConfig "toyWorld []"]
  by (simp add: toyEnv_def objectPrototypeNames_def)

text \<open>
  C6 as stated fails for the empty string: it is no key of \<^verbatim>\<open>allLocales\<close>, yet
  \<^verbatim>\<open>if (options?.locale)\<close> skips the switch and the call returns an item from the
  provider it had.
\<close>

theorem empty_locale_counterexample:
  "[] \<notin> fst ` set (allLocales toyEnv)
   \<and> fst (generateSync toyEnv StringKeyword noConfig
          (Some \<lparr>count = None, seed = None, locale_field = Some (LocaleCode [])\<rparr>) (toyWorld []))
     = Inr [JString ''en-word7'']"
  by (simp add: generateSync_repeat monad_defs toy_defs engine_defs char_evals)

section \<open>Falsy seeds\<close>

text \<open>
  C10. A seed option that is the number \<open>0\<close> or the empty string does nothing: the seed
  step returns at once, the stored seed and the provider untouched, and the whole call
  is the call without a seed option.
\<close>

theorem falsy_seed_ignored:
  "seedStep E (Some (opts\<lparr>seed := Some (SeedNumber 0)\<rparr>)) w = (Inr (), w)
   \<and> seedStep E (Some (opts\<lparr>seed := Some (SeedString [])\<rparr>)) w = (Inr (), w)
   \<and> generateSync E schema config (Some (opts\<lparr>seed := Some (SeedNumber 0)\<rparr>))
       = generateSync E schema config (Some (opts\<lparr>seed := None\<rparr>))
   \<and> generateSync E schema config (Some (opts\<lparr>seed := Some (SeedString [])\<rparr>))
       = generateSync E schema config (Some (opts\<lparr>seed := None\<rparr>))"
  by (simp add: generateSync_def seedStep_def localeStep_def countOf_def returnJS_def)

section \<open>Override precedence\<close>

text \<open>The if-chains of the generators against the heuristic tables, first match first.\<close>

lemma string_heuristic:
  "spec_heuristic E PString n =
     (if includes_js n ''email'' then callFaker E [''internet'', ''email''] []
      else if includes_js n ''name'' then callFaker E [''person'', ''fullName''] []
      else if includes_js n ''phone'' then callFaker E [''phone'', ''number''] []
      else if includes_js n ''address'' then callFaker E [''location'', ''streetAddress''] []
      else if includes_js n ''city'' then callFaker E [''location'', ''city''] []
      else if includes_js n ''country'' then callFaker E [''location'', ''country''] []
      else if includes_js n ''url'' then callFaker E [''internet'', ''url''] []
      else if includes_js n ''title'' then callFaker E [''lorem'', ''sentence''] []
      else if includes_js n ''description'' then callFaker E [''lorem'', ''paragraph''] []
      else lorem_word E)"
  unfolding spec_heuristic_def spec_table.simps spec_default.simps find.simps contains_def
    lorem_word_def
  by (simp only: if_distrib [of "case_option _ _"] option.case fst_conv snd_conv cong: if_cong)

lemma number_heuristic:
  "spec_heuristic E PNumber n =
     (if n = ''id''
      then callFaker E [''number'', ''int'']
             [JObject [(''min'', JNumber 1), (''max'', JNumber 100000)]]
      else if includes_js n ''age''
      then callFaker E [''number'', ''int'']
             [JObject [(''min'', JNumber 18), (''max'', JNumber 80)]]
      else if includes_js n ''price'' \<or> includes_js n ''cost''
      then callFaker E [''number'', ''float'']
             [JObject [(''min'', JNumber 10), (''max'', JNumber 1000),
                       (''fractionDigits'', JNumber 2)]]
      else if includes_js n ''count'' \<or> includes_js n ''quantity''
      then callFaker E [''number'', ''int'']
             [JObject [(''min'', JNumber 1), (''max'', JNumber 100)]]
      else callFaker E [''number'', ''int''] [])"
  unfolding spec_heuristic_def spec_table.simps spec_default.simps find.simps contains_def
    minMax_def
  by (simp only: if_distrib [of "case_option _ _"] option.case fst_conv snd_conv cong: if_cong)

lemma boolean_heuristic:
  "spec_heuristic E PBoolean n = callFaker E [''datatype'', ''boolean''] []"
  by (simp add: spec_heuristic_def)

lemma string_resolution:
  "generateString E path ov =
     spec_precedence E (toStringValue E) ov (spec_heuristic E PString (toLowerCase (getFieldName path)))"
  unfolding string_heuristic generateString_def spec_precedence_def Let_def
  by (cases ov rule: decides.cases) (simp_all split: option.splits)

lemma number_resolution:
  "generateNumber E path ov =
     spec_precedence E (Number_js E) ov (spec_heuristic E PNumber (toLowerCase (getFieldName path)))"
  unfolding number_heuristic generateNumber_def spec_precedence_def Let_def
  by (cases ov rule: decides.cases) (simp_all split: option.splits)

lemma boolean_resolution:
  "generateBoolean E path ov =
     spec_precedence E toBoolean ov (spec_heuristic E PBoolean (toLowerCase (getFieldName path)))"
  unfolding boolean_heuristic generateBoolean_def spec_precedence_def
  by (cases ov rule: decides.cases) (simp_all split: option.splits)

lemma primitive_resolution:
  "generateFromAST E config (keyword k) path =
     spec_precedence E (spec_coerce E k) (config (getFieldName path))
       (spec_heuristic E k (toLowerCase (getFieldName path)))"
  by (cases k; rule ext)
    (simp_all only: keyword.simps spec_coerce.simps generateFromAST.simps
       string_resolution number_resolution boolean_resolution)

lemma decides_precedence:
  "decides ov \<Longrightarrow> spec_precedence E coerce ov m = spec_precedence E coerce ov m'"
  by (cases ov rule: decides.cases) (simp_all add: spec_precedence_def split: option.splits)

lemmas eval_defs = monad_defs toy_defs engine_defs char_evals Let_def

text \<open>
  C4. A primitive field is resolved by the precedence chain: the explicit function, else
  the method-spec string, else the structured override with a generator spec (transform
  after the invocation), each coerced to the kind; else the field-name heuristic of the
  kind, else the kind default. So where the entry under the field's name decides, the
  heuristic is never consulted: the result is the same with the kind default in its place.
\<close>

theorem override_precedence:
  "generateFromAST E config (keyword k) path =
     spec_precedence E (spec_coerce E k) (config (getFieldName path))
       (spec_heuristic E k (toLowerCase (getFieldName path)))
   \<and> (decides (config (getFieldName path)) \<longrightarrow>
        generateFromAST E config (keyword k) path =
          spec_precedence E (spec_coerce E k) (config (getFieldName path)) (spec_default E k))"
  using decides_precedence [of "config (getFieldName path)" E "spec_coerce E k"]
  by (simp add: primitive_resolution)

theorem override_precedence_witness:
  "decides (toyConfig (getFieldName ''user.email''))
   \<and> fst (generateFromAST toyEnv toyConfig StringKeyword ''user.email'' (toyWorld []))
       = Inr (JString ''25'')
   \<and> fst (generateFromAST toyEnv noConfig StringKeyword ''user.email'' (toyWorld []))
       = Inr (JString ''user7@example.en'')
   \<and> fst (generateFromAST toyEnv toyConfig StringKeyword ''user.name'' (toyWorld []))
       = Inr (JString ''aaa'')
   \<and> fst (generateFromAST toyEnv toyConfig StringKeyword ''title'' (toyWorld []))
       = Inr (JString ''Dr. en-word7'')
   \<and> fst (generateFromAST toyEnv toyConfig NumberKeyword ''age'' (toyWorld []))
       = Inr (JNumber 41)"
proof -
  have d: "decides (toyConfig (getFieldName ''user.email''))"
    by (simp add: eval_defs)
  have "generateFromAST toyEnv toyConfig (keyword PString) ''user.email'' =
          spec_precedence toyEnv (spec_coerce toyEnv PString) (toyConfig (getFieldName ''user.email''))
            (spec_default toyEnv PString)"
    using override_precedence [of toyEnv toyConfig PString "''user.email''"] d by blast
  then have "fst (generateFromAST toyEnv toyConfig StringKeyword ''user.email'' (toyWorld []))
       = Inr (JString ''25'')"
    by (simp add: spec_precedence_def eval_defs)
  moreover have "fst (generateFromAST toyEnv noConfig StringKeyword ''user.email'' (toyWorld []))
       = Inr (JString ''user7@example.en'')"
    by (simp add: eval_defs)
  moreover have "fst (generateFromAST toyEnv toyConfig StringKeyword ''user.name'' (toyWorld []))
       = Inr (JString ''aaa'')"
    by (simp add: eval_defs numeral_3_eq_3)
  moreover have "fst (generateFromAST toyEnv toyConfig StringKeyword ''title'' (toyWorld []))
       = Inr (JString ''Dr. en-word7'')"
    by (simp add: eval_defs)
  moreover have "fst (generateFromAST toyEnv toyConfig NumberKeyword ''age'' (toyWorld []))
       = Inr (JNumber 41)"
    by (simp add: eval_defs)
  ultimately show ?thesis
    using d by simp
qed

section \<open>The key of an override\<close>

lemma split_on_nonempty: "split_on c s \<noteq> []"
  by (induction s) (simp_all split: list.splits)

lemma split_on_append: "split_on c (base @ c # field) = split_on c base @ split_on c field"
  by (induction base) (simp_all add: split_on_nonempty split: list.splits)

text \<open>The path \<^verbatim>\<open>generateObject\<close> builds for a field below a base ends as the field's name does.\<close>

lemma last_split_append:
  "last (split_on c (base @ c # field)) = last (split_on c field)"
  by (simp add: split_on_append split_on_nonempty)

text \<open>
  C8, as the code has it. Two fields whose paths end in the same non-empty segment look
  up the same entry of the configuration, the one under that segment, and are resolved
  alike (override, heuristic and default), wherever they are nested.
\<close>

theorem override_keyed_by_last_segment:
  assumes "last (split_on CHR ''.'' p1) = name"
    and "last (split_on CHR ''.'' p2) = name"
    and "name \<noteq> []"
  shows "getFieldName p1 = name \<and> getFieldName p2 = name
    \<and> generateFromAST E config (keyword k) p1 = generateFromAST E config (keyword k) p2
    \<and> generateFromAST E config (keyword k) p1 =
        spec_precedence E (spec_coerce E k) (config name) (spec_heuristic E k (toLowerCase name))"
proof -
  have "getFieldName p1 = name" and "getFieldName p2 = name"
    using assms by (simp_all add: getFieldName_def)
  then show ?thesis
    by (simp add: primitive_resolution)
qed

theorem override_keyed_by_last_segment_witness:
  "last (split_on CHR ''.'' ''user.email'') = ''email''
   \<and> last (split_on CHR ''.'' ''company.contact.email'') = ''email''
   \<and> generateFromAST toyEnv toyConfig StringKeyword ''user.email''
       = generateFromAST toyEnv toyConfig StringKeyword ''company.contact.email''
   \<and> fst (generateFromAST toyEnv toyConfig StringKeyword ''company.contact.email'' (toyWorld []))
       = Inr (JString ''25'')"
proof -
  have a: "last (split_on CHR ''.'' ''user.email'') = ''email''"
    and b: "last (split_on CHR ''.'' ''company.contact.email'') = ''email''"
    by simp_all
  have c: "''email'' \<noteq> []"
    by simp
  have "generateFromAST toyEnv toyConfig (keyword PString) ''user.email''
       = generateFromAST toyEnv toyConfig (keyword PString) ''company.contact.email''"
    using override_keyed_by_last_segment [OF a b c, of toyEnv toyConfig PString] by blast
  moreover have "fst (generateFromAST toyEnv toyConfig StringKeyword ''company.contact.email''
      (toyWorld [])) = Inr (JString ''25'')"
    by (simp add: eval_defs)
  ultimately show ?thesis
    using a b by simp
qed

text \<open>
  C8 as stated fails where the last segment is empty: \<^verbatim>\<open>|| path\<close> then takes the whole
  path as the key. The entry under the empty name reaches a field at the empty path, but
  neither of two properties named by the empty string inside \<^verbatim>\<open>a\<close> and \<^verbatim>\<open>b\<close>: their
  keys are \<^verbatim>\<open>a.\<close> and \<^verbatim>\<open>b.\<close>, and both get the default word.
\<close>

theorem empty_segment_counterexample:
  "last (split_on CHR ''.'' ''a.'') = []
   \<and> last (split_on CHR ''.'' ''b.'') = []
   \<and> fst (generateFromAST toyEnv toyConfig StringKeyword [] (toyWorld []))
       = Inr (JString ''fixed'')
   \<and> fst (generateFromAST toyEnv toyConfig
            (TypeLiteral [(''a'', TypeLiteral [([], StringKeyword)]),
                          (''b'', TypeLiteral [([], StringKeyword)])]) [] (toyWorld []))
       = Inr (JObject [(''a'', JObject [([], JString ''en-word7'')]),
                       (''b'', JObject [([], JString ''en-word8'')])])"
  by (simp add: eval_defs)

section \<open>Rounding to doubles\<close>

lemma bitLength_lower: "0 < n \<Longrightarrow> 2 ^ (bitLength n - 1) \<le> n"
proof (induction n rule: bitLength.induct)
  case (1 n)
  show ?case
  proof (cases "n div 2 = 0")
    case True
    with 1 have "n = 1" by (simp add: div_eq_0_iff) 
    thus ?thesis by (simp add: bitLength.simps)
  next
    case False
    hence pos: "0 < n div 2" by simp
    from 1 have n0: "n \<noteq> 0" by simp
    from 1(1) [OF n0 pos] have ih: "2 ^ (bitLength (n div 2) - 1) \<le> n div 2" .
    from pos have bl: "0 < bitLength (n div 2)" by (subst bitLength.simps) simp
    have "bitLength n - 1 = Suc (bitLength (n div 2) - 1)"
      using n0 bl by (subst bitLength.simps) simp
    hence "(2::nat) ^ (bitLength n - 1) = 2 * 2 ^ (bitLength (n div 2) - 1)" by simp
    also have "\<dots> \<le> 2 * (n div 2)" using ih by simp
    also have "\<dots> \<le> n" by simp
    finally show ?thesis .
  qed
qed

lemma bitLength_upper: "n < 2 ^ bitLength n"
proof (induction n rule: bitLength.induct)
  case (1 n)
  show ?case
  proof (cases "n = 0")
    case True
    thus ?thesis by simp
  next
    case False
    from 1 [OF False] have "n div 2 < 2 ^ bitLength (n div 2)" .
    hence "n < 2 * 2 ^ bitLength (n div 2)" by linarith
    thus ?thesis using False by (subst bitLength.simps) simp
  qed
qed

lemma binade_lower:
  assumes "0 < x"
  shows "2 powi (binade x) \<le> x"
proof (cases "1 \<le> x")
  case True
  define m where "m = nat \<lfloor>x\<rfloor>"
  from True have m1: "0 < m" unfolding m_def by simp
  have bl: "0 < bitLength m" using m1 by (subst bitLength.simps) simp
  have "binade x = int (bitLength m - 1)" using True bl by (simp add: binade_def m_def)
  hence "(2::rat) powi (binade x) = 2 ^ (bitLength m - 1)" by simp
  also have "\<dots> = of_nat (2 ^ (bitLength m - 1))" by simp
  also have "\<dots> \<le> of_nat m" using bitLength_lower [OF m1] by (simp only: of_nat_le_iff)
  also have "\<dots> \<le> x" using True unfolding m_def by (simp add: of_nat_nat) 
  finally show ?thesis .
next
  case False
  define m where "m = nat \<lceil>1 / x\<rceil>"
  define k where "k = bitLength (m - 1)"
  have "m - 1 < 2 ^ k" unfolding k_def by (rule bitLength_upper)
  hence mk: "m \<le> 2 ^ k" by simp
  have "1 / x \<le> of_int \<lceil>1 / x\<rceil>" by (rule le_of_int_ceiling)
  also have "\<dots> \<le> of_nat m" unfolding m_def by simp
  also have "\<dots> \<le> of_nat (2 ^ k)" using mk by (simp only: of_nat_le_iff)
  finally have "1 / x \<le> 2 ^ k" by simp
  hence "1 \<le> 2 ^ k * x" using assms by (simp add: field_simps)
  hence "1 / 2 ^ k \<le> x" by (simp add: field_simps)
  moreover have "binade x = - int k" using False by (simp add: binade_def m_def k_def)
  ultimately show ?thesis by (simp add: power_int_minus field_simps)
qed

lemma roundHalfEven_bounds:
  "of_int (roundHalfEven y) \<le> y + 1 / 2 \<and> y - 1 / 2 \<le> of_int (roundHalfEven y)"
  unfolding roundHalfEven_def Let_def by (auto; linarith)

lemma roundHalfEven_nonneg: "0 \<le> y \<Longrightarrow> 0 \<le> roundHalfEven y"
  unfolding roundHalfEven_def Let_def by auto

lemma quantum_pos: "0 < quantum x"
  unfolding quantum_def by simp

lemma quantum_upper:
  assumes "0 < x"
  shows "quantum x \<le> max (x / 2 ^ 52) (1 / 2 ^ 1074)"
proof (cases "- 1022 \<le> binade x")
  case True
  hence "quantum x = 2 powi (binade x - 52)" by (simp add: quantum_def max_def)
  also have "\<dots> = 2 powi (binade x) / 2 ^ 52" by (simp add: power_int_diff)
  also have "\<dots> \<le> x / 2 ^ 52" using binade_lower [OF assms] by (simp add: divide_right_mono)
  finally show ?thesis by simp
next
  case False
  hence "quantum x = 2 powi (- 1074)" by (simp add: quantum_def max_def)
  thus ?thesis by (simp add: power_int_minus field_simps)
qed

lemma roundDouble_error:
  assumes "0 < x"
  shows "\<bar>roundDouble x - x\<bar> \<le> max (x / 2 ^ 53) (1 / 2 ^ 1075)"
proof -
  define q where "q = quantum x"
  have q0: "0 < q" unfolding q_def by (rule quantum_pos)
  define m where "m = roundHalfEven (x / q)"
  have rd: "roundDouble x = q * of_int m"
    using assms by (simp add: roundDouble_def q_def m_def)
  from roundHalfEven_bounds [of "x / q"]
  have "\<bar>of_int m - x / q\<bar> \<le> 1 / 2" unfolding m_def by linarith
  hence "q * \<bar>of_int m - x / q\<bar> \<le> q * (1 / 2)" using q0 by (simp only: mult_le_cancel_left_pos)
  moreover have "q * \<bar>of_int m - x / q\<bar> = \<bar>q * of_int m - x\<bar>"
  proof -
    have "q * \<bar>of_int m - x / q\<bar> = \<bar>q * (of_int m - x / q)\<bar>" using q0 by (simp add: abs_mult)
    also have "q * (of_int m - x / q) = q * of_int m - x" using q0 by (simp add: field_simps)
    finally show ?thesis .
  qed
  ultimately have "\<bar>roundDouble x - x\<bar> \<le> q / 2" by (simp add: rd)
  also have "\<dots> \<le> max (x / 2 ^ 52) (1 / 2 ^ 1074) / 2"
    using quantum_upper [OF assms] unfolding q_def by simp
  also have "\<dots> = max (x / 2 ^ 53) (1 / 2 ^ 1075)" by (simp add: max_def field_simps)
  finally show ?thesis .
qed

lemma roundDouble_nonneg: "0 \<le> x \<Longrightarrow> 0 \<le> roundDouble x"
  unfolding roundDouble_def
  by (auto simp: sgn_if intro!: mult_nonneg_nonneg roundHalfEven_nonneg less_imp_le [OF quantum_pos] divide_nonneg_pos quantum_pos)

lemma roundDouble_product_less:
  assumes r0: "0 \<le> r" and r1: "r \<le> 1 - 1 / 2 ^ 53" and n: "0 < n"
  shows "roundDouble (r * of_nat n) < of_nat n"
proof (cases "r = 0")
  case True
  thus ?thesis using n by (simp add: roundDouble_def)
next
  case False
  define N :: rat where "N = of_nat n"
  have N1: "1 \<le> N" using n unfolding N_def by simp
  define x where "x = r * N"
  have x0: "0 < x" using False r0 N1 unfolding x_def by simp
  have xN: "x \<le> (1 - 1 / 2 ^ 53) * N" unfolding x_def using r1 N1 by (simp add: mult_right_mono)
  from roundDouble_error [OF x0] have "roundDouble x \<le> x + max (x / 2 ^ 53) (1 / 2 ^ 1075)" by linarith
  moreover have "x + x / 2 ^ 53 < N"
  proof -
    have "x + x / 2 ^ 53 = x * (1 + 1 / 2 ^ 53)" by (simp add: field_simps)
    also have "\<dots> \<le> ((1 - 1 / 2 ^ 53) * N) * (1 + 1 / 2 ^ 53)" using xN by (simp add: mult_right_mono)
    also have "\<dots> = N * ((1 - 1 / 2 ^ 53) * (1 + 1 / 2 ^ 53))" by (simp add: mult_ac)
    also have "\<dots> < N * 1" using N1 by (intro mult_strict_left_mono) simp_all
    finally show ?thesis by simp
  qed
  moreover have "x + 1 / 2 ^ 1075 < N"
  proof -
    have "x \<le> N - N / 2 ^ 53" using xN by (simp add: field_simps)
    moreover have "(1::rat) / 2 ^ 53 \<le> N / 2 ^ 53" using N1 by (simp add: divide_right_mono)
    moreover have "(1::rat) / 2 ^ 1075 < 1 / 2 ^ 53" by simp
    ultimately show ?thesis by linarith
  qed
  ultimately have "roundDouble x < N" by (simp add: max_def split: if_splits)
  thus ?thesis unfolding x_def N_def .
qed

lemma roundDouble_error0:
  assumes "0 \<le> x"
  shows "\<bar>roundDouble x - x\<bar> \<le> max (x / 2 ^ 53) (1 / 2 ^ 1075)"
proof (cases "x = 0")
  case True
  thus ?thesis by (simp add: roundDouble_def)
next
  case False
  with assms have "0 < x" by simp
  thus ?thesis by (rule roundDouble_error)
qed

lemma binade_upper:
  assumes "0 < x"
  shows "x < 2 powi (binade x + 1)"
proof (cases "1 \<le> x")
  case True
  define m where "m = nat \<lfloor>x\<rfloor>"
  from True have m1: "0 < m" unfolding m_def by simp
  have bl: "0 < bitLength m" using m1 by (subst bitLength.simps) simp
  have "binade x + 1 = int (bitLength m)" using True by (simp add: binade_def m_def)
  hence p: "(2::rat) powi (binade x + 1) = of_nat (2 ^ bitLength m)" by simp
  have "m + 1 \<le> 2 ^ bitLength m" using bitLength_upper [of m] by simp
  hence "(of_nat (m + 1) :: rat) \<le> of_nat (2 ^ bitLength m)" by (simp only: of_nat_le_iff)
  moreover have "x < of_nat (m + 1)"
  proof -
    have "x < of_int \<lfloor>x\<rfloor> + 1" by linarith
    moreover have "(of_int \<lfloor>x\<rfloor> :: rat) = of_nat m" using True unfolding m_def by simp
    ultimately show ?thesis by simp
  qed
  ultimately show ?thesis unfolding p by linarith
next
  case False
  define c where "c = \<lceil>1 / x\<rceil>"
  define m where "m = nat c"
  define k where "k = bitLength (m - 1)"
  have inv: "1 < 1 / x" using assms False by simp
  have c2: "2 \<le> c" unfolding c_def using inv by linarith
  have m2: "2 \<le> m" using c2 unfolding m_def by linarith
  hence k1: "0 < k" unfolding k_def by (subst bitLength.simps) simp
  have "2 ^ (k - 1) \<le> m - 1" unfolding k_def using m2 by (intro bitLength_lower) simp
  hence "(of_nat (2 ^ (k - 1)) :: rat) \<le> of_nat (m - 1)" by (simp only: of_nat_le_iff)
  moreover have "(of_nat (2 ^ (k - 1)) :: rat) = 2 ^ (k - 1)" by simp
  ultimately have a: "(2::rat) ^ (k - 1) \<le> of_nat (m - 1)" by (simp only:)
  have "int (m - 1) = c - 1" using c2 unfolding m_def by simp
  hence "(of_int (int (m - 1)) :: rat) = of_int (c - 1)" by (simp only:)
  hence b: "(of_nat (m - 1) :: rat) = of_int c - 1" by simp
  have "of_int c - 1 < 1 / x" unfolding c_def by linarith
  with a b have "(2::rat) ^ (k - 1) < 1 / x" by linarith
  hence "2 ^ (k - 1) * x < 1" using assms by (simp add: field_simps)
  hence "x < 1 / 2 ^ (k - 1)" by (simp add: field_simps)
  moreover have "binade x + 1 = - int (k - 1)"
    using False k1 by (simp add: binade_def m_def k_def c_def)
  hence "(2::rat) powi (binade x + 1) = 1 / 2 ^ (k - 1)"
    by (simp only: power_int_minus power_int_of_nat inverse_eq_divide)
  ultimately show ?thesis by simp
qed

lemma double_below_one:
  assumes dbl: "roundDouble r = r" and r1: "r < 1"
  shows "r \<le> 1 - 1 / 2 ^ 53"
proof (cases "1 / 2 \<le> r")
  case False
  moreover have "(1::rat) / 2 \<le> 1 - 1 / 2 ^ 53" by simp
  ultimately show ?thesis by linarith
next
  case True
  hence r0: "0 < r" by simp
  have "binade r \<le> - 1"
  proof (rule ccontr)
    assume "\<not> binade r \<le> - 1"
    hence "0 \<le> binade r" by simp
    hence "(1::rat) \<le> 2 powi (binade r)" by (simp add: one_le_power_int)
    with binade_lower [OF r0] r1 show False by simp
  qed
  moreover have "- 1 \<le> binade r"
  proof (rule ccontr)
    assume "\<not> - 1 \<le> binade r"
    hence "binade r + 1 \<le> - 1" by simp
    hence "(2::rat) powi (binade r + 1) \<le> 2 powi (- 1)" by (intro power_int_increasing) simp_all
    with binade_upper [OF r0] True show False by simp
  qed
  ultimately have e: "binade r = - 1" by simp
  have q: "quantum r = 1 / 2 ^ 53" by (simp add: quantum_def e)
  define m where "m = roundHalfEven (\<bar>r\<bar> / quantum \<bar>r\<bar>)"
  have "r = quantum r * of_int m"
    using dbl r0 unfolding m_def roundDouble_def by (simp add: sgn_if split: if_splits)
  hence rm: "r = of_int m / 2 ^ 53" by (simp add: q)
  with r1 have "of_int m < (2::rat) ^ 53" by (simp add: field_simps)
  hence "of_int m < (of_int (2 ^ 53) :: rat)" by simp
  hence "m < 2 ^ 53" by (simp only: of_int_less_iff)
  hence "m \<le> 2 ^ 53 - 1" by simp
  hence "(of_int m :: rat) \<le> of_int (2 ^ 53 - 1)" by (simp only: of_int_le_iff)
  hence "(of_int m :: rat) \<le> 2 ^ 53 - 1" by simp
  hence "r \<le> (2 ^ 53 - 1) / 2 ^ 53" unfolding rm by (simp add: divide_right_mono)
  thus ?thesis by simp
qed

lemma product_index:
  fixes r :: rat
  assumes n: "0 < n" and r0: "0 \<le> r" and r1: "r < 1" and dbl: "roundDouble r = r"
  shows "0 \<le> \<lfloor>roundDouble (r * of_nat n)\<rfloor>"
    and "nat \<lfloor>roundDouble (r * of_nat n)\<rfloor> < n"
    and "of_nat (nat \<lfloor>roundDouble (r * of_nat n)\<rfloor>) / of_nat n \<le> r * (1 + 1 / 2 ^ 53)"
    and "r * (1 - 1 / 2 ^ 53) < of_nat (Suc (nat \<lfloor>roundDouble (r * of_nat n)\<rfloor>)) / of_nat n"
proof -
  define u :: rat where "u = 1 / 2 ^ 53"
  define t :: rat where "t = 1 / 2 ^ 1075"
  define x where "x = r * of_nat n"
  define y where "y = roundDouble x"
  define i where "i = \<lfloor>y\<rfloor>"
  have u: "0 < u" and t: "t < 1 / 4" and tu: "t < u / 4"
    by (simp_all add: u_def t_def)
  have N: "(0::rat) < of_nat n"
    using n by simp
  have x0: "0 \<le> x"
    using r0 by (simp add: x_def)
  have y0: "0 \<le> y"
    unfolding y_def using x0 by (rule roundDouble_nonneg)
  have yn: "y < of_nat n"
    unfolding y_def x_def by (rule roundDouble_product_less [OF r0 double_below_one [OF dbl r1] n])
  have err: "\<bar>y - x\<bar> \<le> max (x * u) t"
    using roundDouble_error0 [OF x0] by (simp add: y_def u_def t_def)
  have i0: "0 \<le> i"
    using y0 by (simp add: i_def)
  have "i < int n"
    using yn by (simp add: i_def floor_less_iff)
  then have i_n: "nat i < n"
    by (simp only: nat_less_iff [OF i0])
  have eq: "(of_nat (nat i) :: rat) = of_int i"
    using i0 by simp
  have lo: "of_int i \<le> y" and hi: "y < of_int i + 1"
    unfolding i_def by linarith+
  have small: "i = 0 \<and> x < 1" if "x * u \<le> t"
  proof -
    from that tu have "x * u < u / 4"
      by linarith
    then have "x * u < (1 / 4) * u"
      by simp
    then have x4: "x < 1 / 4"
      using u by (simp only: mult_less_cancel_right_pos)
    from err that have "y \<le> x + t"
      by (simp add: max_absorb2)
    with x4 t have "y < 1"
      by linarith
    then have "i < 1"
      by (simp add: i_def floor_less_iff)
    with i0 x4 show ?thesis
      by simp
  qed
  have lower: "of_int i \<le> x * (1 + u)"
  proof (cases "x * u \<le> t")
    case True
    from small [OF True] x0 u show ?thesis
      by simp
  next
    case False
    with err have "y \<le> x + x * u"
      by (simp add: max_def split: if_splits)
    with lo show ?thesis
      by (simp add: algebra_simps)
  qed
  have upper: "x * (1 - u) < of_int i + 1"
  proof (cases "x * u \<le> t")
    case True
    have "0 \<le> x * u"
      using x0 u by simp
    then have "x * (1 - u) \<le> x"
      by (simp add: algebra_simps)
    with small [OF True] show ?thesis
      by simp
  next
    case False
    with err have "x - x * u \<le> y"
      by (simp add: max_def split: if_splits)
    with hi show ?thesis
      by (simp add: algebra_simps)
  qed
  show "0 \<le> \<lfloor>roundDouble (r * of_nat n)\<rfloor>"
    using i0 by (simp only: i_def y_def x_def)
  show "nat \<lfloor>roundDouble (r * of_nat n)\<rfloor> < n"
    using i_n by (simp only: i_def y_def x_def)
  have "of_nat (nat i) \<le> r * (1 + u) * of_nat n"
    using lower by (simp only: eq x_def mult.assoc mult.commute mult.left_commute)
  then have "of_nat (nat i) / of_nat n \<le> r * (1 + u)"
    using N by (simp only: pos_divide_le_eq)
  then show "of_nat (nat \<lfloor>roundDouble (r * of_nat n)\<rfloor>) / of_nat n \<le> r * (1 + 1 / 2 ^ 53)"
    by (simp only: i_def y_def x_def u_def)
  have "of_nat (Suc (nat i)) = (of_int i + 1 :: rat)"
    using eq by simp
  then have "r * (1 - u) * of_nat n < of_nat (Suc (nat i))"
    using upper by (simp only: x_def mult.assoc mult.commute mult.left_commute)
  then have "r * (1 - u) < of_nat (Suc (nat i)) / of_nat n"
    using N by (simp only: pos_less_divide_eq)
  then show "r * (1 - 1 / 2 ^ 53) < of_nat (Suc (nat \<lfloor>roundDouble (r * of_nat n)\<rfloor>)) / of_nat n"
    by (simp only: i_def y_def x_def u_def)
qed

text \<open>Rounding on numerals.\<close>

lemma floor_rat_numeral:
  "\<lfloor>numeral a / numeral b :: rat\<rfloor> = numeral a div numeral b"
  "\<lfloor>1 / numeral b :: rat\<rfloor> = 1 div numeral b"
  using floor_divide_of_int_eq [of "numeral a" "numeral b", where ?'a = rat]
    floor_divide_of_int_eq [of 1 "numeral b", where ?'a = rat]
  by simp_all

lemma ceiling_rat_numeral:
  "\<lceil>numeral a / numeral b :: rat\<rceil> = - (- numeral a div numeral b)"
  "\<lceil>1 / numeral b :: rat\<rceil> = - (- 1 div numeral b)"
  using ceiling_divide_eq_div [of "numeral a" "numeral b", where ?'a = rat]
    ceiling_divide_eq_div [of 1 "numeral b", where ?'a = rat]
  by simp_all

lemma bitLength_numeral:
  "bitLength 0 = 0"
  "bitLength (Suc 0) = 1"
  "bitLength 1 = 1"
  "bitLength (numeral k) = Suc (bitLength (numeral k div 2))"
  by (simp_all add: bitLength.simps)

lemmas round_defs = roundDouble_def quantum_def binade_def roundHalfEven_def Let_def
  floor_rat_numeral ceiling_rat_numeral bitLength_numeral power_int_minus

text \<open>
  \<open>0\<close>, \<open>1/2\<close>, \<open>1\<close> and \<open>3/2\<close> are doubles. \<open>1/3\<close> is not: the double nearest to it,
  which JavaScript prints as \<^verbatim>\<open>0.3333333333333333\<close>, lies below it, and three times that
  double rounds to \<open>1\<close>.
\<close>

lemma roundDouble_values:
  "roundDouble 0 = 0"
  "roundDouble (1 / 2) = 1 / 2"
  "roundDouble 1 = 1"
  "roundDouble (3 / 2) = 3 / 2"
  by (simp_all add: round_defs)

lemma roundDouble_third:
  "roundDouble (1 / 3) = 6004799503160661 / 18014398509481984"
  "roundDouble (6004799503160661 / 18014398509481984) = 6004799503160661 / 18014398509481984"
  "roundDouble (6004799503160661 / 18014398509481984 * 3) = 1"
  "roundDouble (18014398509481983 / 18014398509481984) = 1"
  by (simp_all add: round_defs)

section \<open>Unions\<close>

lemma generateUnion_pick:
  assumes "i = \<lfloor>roundDouble (random w 0 * of_nat (length types))\<rfloor>"
    and "0 \<le> i" and "nat i < length types"
  shows "generateFromAST E config (Union_ast types) path w =
           evaluateMember E config path (types ! nat i) (snd (Math_random w))"
  using assms
  by (simp add: evaluateMember_def Math_random_def times_double_def Let_def split: ast.splits)

text \<open>
  C9. For a union with members and a draw \<open>r\<close> of \<^verbatim>\<open>Math.random()\<close>, a double in
  \<open>[0, 1)\<close>, the engine picks the member at the index \<open>i\<close> that is the floor of the double
  product of \<open>r\<close> and the number \<open>n\<close> of members. That index is within the list, and \<open>r\<close>
  lies in the interval \<open>[i / n, (i + 1) / n)\<close> of that member up to the rounding of the
  product, a factor of \<open>1 \<plusminus> 2 ^ (- 53)\<close> (intervals of equal width, as far as doubles have
  them: a uniform draw picks uniformly). A picked literal is returned as it is, any other
  member is evaluated at the same path; so the outcome is one of the outcomes of the
  members.
\<close>

theorem union_picks_member:
  assumes "types \<noteq> []"
    and "0 \<le> random w 0" and "random w 0 < 1" and "roundDouble (random w 0) = random w 0"
  shows "\<exists>i. i < length types
      \<and> int i = \<lfloor>times_double (random w 0) (of_nat (length types))\<rfloor>
      \<and> of_nat i / of_nat (length types) \<le> random w 0 * (1 + 1 / 2 ^ 53)
      \<and> random w 0 * (1 - 1 / 2 ^ 53) < of_nat (Suc i) / of_nat (length types)
      \<and> generateFromAST E config (Union_ast types) path w =
          evaluateMember E config path (types ! i) (snd (Math_random w))
      \<and> generateFromAST E config (Union_ast types) path w
          \<in> (\<lambda>member. evaluateMember E config path member (snd (Math_random w))) ` set types"
proof -
  let ?i = "nat \<lfloor>roundDouble (random w 0 * of_nat (length types))\<rfloor>"
  have n: "0 < length types"
    using assms(1) by simp
  note fl = product_index [OF n assms(2,3,4)]
  have idx: "int ?i = \<lfloor>times_double (random w 0) (of_nat (length types))\<rfloor>"
    using fl(1) by (simp add: times_double_def)
  have pick: "generateFromAST E config (Union_ast types) path w =
      evaluateMember E config path (types ! ?i) (snd (Math_random w))"
    using generateUnion_pick [OF refl fl(1) fl(2)] .
  have "types ! ?i \<in> set types"
    using fl(2) by simp
  then have "generateFromAST E config (Union_ast types) path w
      \<in> (\<lambda>member. evaluateMember E config path member (snd (Math_random w))) ` set types"
    using pick by blast
  with fl(2,3,4) idx pick show ?thesis
    by blast
qed

theorem union_picks_member_witness:
  "[Literal_ast (JString ''active''), Literal_ast (JString ''inactive''),
    Literal_ast (JString ''pending'')] \<noteq> []
   \<and> 0 \<le> random (toyWorld [1 / 2]) 0 \<and> random (toyWorld [1 / 2]) 0 < 1
   \<and> roundDouble (random (toyWorld [1 / 2]) 0) = random (toyWorld [1 / 2]) 0
   \<and> fst (generateFromAST toyEnv noConfig
          (Union_ast [Literal_ast (JString ''active''), Literal_ast (JString ''inactive''),
                      Literal_ast (JString ''pending'')]) ''status'' (toyWorld [1 / 2]))
       \<in> {Inr (JString ''active''), Inr (JString ''inactive''), Inr (JString ''pending'')}"
proof -
  let ?types = "[Literal_ast (JString ''active''), Literal_ast (JString ''inactive''),
                 Literal_ast (JString ''pending'')]"
  have a: "?types \<noteq> []"
    by simp
  have b: "0 \<le> random (toyWorld [1 / 2]) 0" and c: "random (toyWorld [1 / 2]) 0 < 1"
    and d: "roundDouble (random (toyWorld [1 / 2]) 0) = random (toyWorld [1 / 2]) 0"
    by (simp_all add: toyWorld_def drawsOf_def roundDouble_values)
  from union_picks_member [OF a b c d, of toyEnv noConfig "''status''"]
  have "generateFromAST toyEnv noConfig (Union_ast ?types) ''status'' (toyWorld [1 / 2])
      \<in> (\<lambda>member. evaluateMember toyEnv noConfig ''status'' member
            (snd (Math_random (toyWorld [1 / 2])))) ` set ?types"
    by blast
  then have "fst (generateFromAST toyEnv noConfig (Union_ast ?types) ''status'' (toyWorld [1 / 2]))
      \<in> {Inr (JString ''active''), Inr (JString ''inactive''), Inr (JString ''pending'')}"
    by (auto simp: evaluateMember_def)
  with a b c d show ?thesis
    by blast
qed

text \<open>
  The rounding of the product shows at the ends of the intervals: the draw
  \<^verbatim>\<open>0.3333333333333333\<close> is below \<open>1/3\<close>, and of three members the engine picks the
  second, since \<^verbatim>\<open>0.3333333333333333 * 3 === 1\<close>.
\<close>

lemma union_pick_at_rounded_product:
  "(6004799503160661 / 18014398509481984 :: rat) < 1 / 3
   \<and> fst (generateFromAST toyEnv noConfig
          (Union_ast [Literal_ast (JString ''active''), Literal_ast (JString ''inactive''),
                      Literal_ast (JString ''pending'')]) ''status''
          (toyWorld [6004799503160661 / 18014398509481984]))
     = Inr (JString ''inactive'')"
  by (simp add: eval_defs roundDouble_third)

section \<open>The method interpreter\<close>

text \<open>
  The matcher against the shape of the pattern: letters and dots alone, or letters and
  dots followed by a parenthesised, non-empty blob without line terminators.
\<close>

lemma paren_not_pathChar: "\<not> isPathChar CHR ''(''"
  by (simp add: isPathChar_def)

lemma takeWhile_path:
  "list_all isPathChar p \<Longrightarrow> takeWhile isPathChar (p @ CHR ''('' # t) = p"
  by (induction p) (simp_all add: paren_not_pathChar)

lemma dropWhile_path:
  "list_all isPathChar p \<Longrightarrow> dropWhile isPathChar (p @ CHR ''('' # t) = CHR ''('' # t"
  by (induction p) (simp_all add: paren_not_pathChar)

lemma wrapped_shape:
  assumes "3 \<le> length xs" and "hd xs = a" and "last xs = b"
  shows "xs = a # butlast (tl xs) @ [b]" and "butlast (tl xs) \<noteq> []"
proof -
  obtain x ys where xs: "xs = x # ys"
    using assms(1) by (cases xs) auto
  then have ys: "ys \<noteq> []" "2 \<le> length ys"
    using assms(1) by auto
  then have "butlast ys @ [last ys] = ys"
    by simp
  moreover have "last ys = b" and "x = a"
    using xs ys(1) assms(2,3) by simp_all
  ultimately show "xs = a # butlast (tl xs) @ [b]"
    using xs by simp
  show "butlast (tl xs) \<noteq> []"
  proof
    assume "butlast (tl xs) = []"
    then have "length (butlast ys) = 0"
      using xs by simp
    then show False
      using ys(2) by simp
  qed
qed

lemma takeWhile_all: "list_all P (takeWhile P xs)"
  by (induction xs) simp_all

lemma matchFakerPath_no_blob:
  "matchFakerPath s = Some (p, None) \<longleftrightarrow> s = p \<and> p \<noteq> [] \<and> list_all isPathChar p"
proof
  assume m: "matchFakerPath s = Some (p, None)"
  then have d: "dropWhile isPathChar s = []" and p: "p = takeWhile isPathChar s" "p \<noteq> []"
    by (auto simp: matchFakerPath_def Let_def split: if_splits)
  have tw: "takeWhile isPathChar s = s"
    using takeWhile_dropWhile_id [of isPathChar s] d by (metis append_Nil2)
  have "s = p"
    by (simp only: p(1) tw)
  then show "s = p \<and> p \<noteq> [] \<and> list_all isPathChar p"
    using takeWhile_all [of isPathChar s] p by simp
next
  assume "s = p \<and> p \<noteq> [] \<and> list_all isPathChar p"
  then have "takeWhile isPathChar s = p" and "dropWhile isPathChar s = []" and "p \<noteq> []"
    by (simp_all add: list_all_iff)
  then show "matchFakerPath s = Some (p, None)"
    by (simp add: matchFakerPath_def)
qed

lemma matchFakerPath_with_blob:
  "matchFakerPath s = Some (p, Some blob) \<longleftrightarrow>
     s = p @ ''('' @ blob @ '')'' \<and> p \<noteq> [] \<and> list_all isPathChar p
     \<and> blob \<noteq> [] \<and> list_all (\<lambda>c. \<not> isLineTerminator c) blob"
proof
  let ?rest = "dropWhile isPathChar s"
  assume m: "matchFakerPath s = Some (p, Some blob)"
  then have p: "p = takeWhile isPathChar s" "p \<noteq> []"
    and r: "3 \<le> length ?rest" "hd ?rest = CHR ''(''" "last ?rest = CHR '')''"
    and b: "blob = butlast (tl ?rest)" "list_all (\<lambda>c. \<not> isLineTerminator c) blob"
    by (auto simp: matchFakerPath_def Let_def split: if_splits)
  have "?rest = CHR ''('' # blob @ '')''" and "blob \<noteq> []"
    using wrapped_shape [OF r] b(1) by simp_all
  moreover have "takeWhile isPathChar s @ ?rest = s"
    by (rule takeWhile_dropWhile_id)
  ultimately show "s = p @ ''('' @ blob @ '')'' \<and> p \<noteq> [] \<and> list_all isPathChar p
     \<and> blob \<noteq> [] \<and> list_all (\<lambda>c. \<not> isLineTerminator c) blob"
    using p b(2) takeWhile_all [of isPathChar s] by (simp del: takeWhile_dropWhile_id)
next
  assume a: "s = p @ ''('' @ blob @ '')'' \<and> p \<noteq> [] \<and> list_all isPathChar p
     \<and> blob \<noteq> [] \<and> list_all (\<lambda>c. \<not> isLineTerminator c) blob"
  then have s: "s = p @ CHR ''('' # (blob @ '')'')"
    by simp
  have "takeWhile isPathChar s = p" and "dropWhile isPathChar s = CHR ''('' # (blob @ '')'')"
    unfolding s using a by (simp_all only: takeWhile_path dropWhile_path)
  then show "matchFakerPath s = Some (p, Some blob)"
    using a by (cases blob) (simp_all add: matchFakerPath_def butlast_append)
qed







section \<open>Declarations\<close>

text \<open>
  The name \<^verbatim>\<open>generateDeclaration\<close> switches on starts with \<^verbatim>\<open>Declaration\<close> for every
  node, so none of its five named cases is ever taken: a declaration is its first type
  parameter, or the fallback word.
\<close>

lemma declarationTypeName_not_recognised:
  "declarationTypeName typeParameters \<notin> {''Date'', ''UUID'', ''ULID'', ''Email'', ''URL''}"
  by (simp add: declarationTypeName_def)

lemma generateDeclaration_default:
  "generateFromAST E config (Declaration typeParameters) path w =
     (case typeParameters of
        [] \<Rightarrow> lorem_word E w
      | first # others \<Rightarrow> generateFromAST E config first path w)"
  using declarationTypeName_not_recognised [of typeParameters]
  by (simp add: Let_def split: list.splits)

text \<open>
  C2 on the code. At the path \<^verbatim>\<open>createdAt\<close> the Date chain would return a past date, but
  a declaration node without type parameters, such as the one of a Date, gets the fallback
  word.
\<close>

theorem date_declaration_gets_word:
  "fst (generateDate toyEnv ''createdAt'' (noConfig (getFieldName ''createdAt'')) (toyWorld []))
     = Inr (JDate (JString ''past7''))
   \<and> fst (generateFromAST toyEnv noConfig (Declaration []) ''createdAt'' (toyWorld []))
     = Inr (JString ''en-word7'')"
  by (simp add: generateDeclaration_default eval_defs char_of_def bit_0)

section \<open>Two calls with the same seed\<close>

text \<open>
  Where nothing but the seeded provider is drawn from, the seed does what it promises: for
  a schema without unions, a configuration whose functions use the provider alone, a truthy
  seed and a truthy locale, the call returns the same from any two states of the engine.
\<close>

lemma providerOnlyI:
  "(\<And>w. m w = (case g (currentFaker w) of (r, fk) \<Rightarrow> (r, w\<lparr>currentFaker := fk\<rparr>)))
     \<Longrightarrow> providerOnly m"
  unfolding providerOnly_def by blast

lemma providerOnly_return: "providerOnly (returnJS a)"
  by (rule providerOnlyI [where g = "\<lambda>fk. (Inr a, fk)"]) (simp add: returnJS_def)

lemma providerOnly_bind:
  assumes "providerOnly m" and "\<And>a. providerOnly (k a)"
  shows "providerOnly (bindJS m k)"
proof -
  obtain g where g: "\<And>w. m w = (case g (currentFaker w) of (r, fk) \<Rightarrow> (r, w\<lparr>currentFaker := fk\<rparr>))"
    using assms(1) unfolding providerOnly_def by blast
  have "\<forall>a. \<exists>h. \<forall>w. k a w = (case h (currentFaker w) of (r, fk) \<Rightarrow> (r, w\<lparr>currentFaker := fk\<rparr>))"
    using assms(2) unfolding providerOnly_def by blast
  then obtain h where h: "\<And>a w. k a w = (case h a (currentFaker w) of (r, fk) \<Rightarrow> (r, w\<lparr>currentFaker := fk\<rparr>))"
    by metis
  show ?thesis
    by (rule providerOnlyI [where g = "\<lambda>fk. case g fk of (Inl e, fk') \<Rightarrow> (Inl e, fk')
                                                   | (Inr a, fk') \<Rightarrow> h a fk'"])
      (simp add: bindJS_def g h split: prod.splits sum.splits)
qed

lemma providerOnly_map: "providerOnly m \<Longrightarrow> providerOnly (mapJS f m)"
  unfolding mapJS_def by (rule providerOnly_bind) (simp_all add: providerOnly_return)

lemma providerOnly_invoke: "providerOnly (invoke fn args)"
  by (rule providerOnlyI [where g = "fn args"]) (simp add: invoke_def)

lemma providerOnly_callFaker: "providerOnly (callFaker E path args)"
  by (rule providerOnlyI [where g = "\<lambda>fk. case resolve (Member None (fakerMembers E fk)) path of
        Member (Some fn) ps \<Rightarrow> fn args fk
      | _ \<Rightarrow> (Inl (TypeError (join ''.'' path @ '' is not a function'')), fk)"])
    (simp add: callFaker_def invoke_def split: member.splits option.splits prod.splits)

lemma providerOnly_executeFakerMethod: "providerOnly (executeFakerMethod E s)"
proof -
  let ?word = "\<lambda>fk. case resolve (Member None (fakerMembers E fk)) [''lorem'', ''word''] of
        Member (Some fn) ps \<Rightarrow> fn [] fk
      | _ \<Rightarrow> (Inl (TypeError (join ''.'' [''lorem'', ''word''] @ '' is not a function'')), fk)"
  have word: "lorem_word E w = (case ?word (currentFaker w) of (r, fk) \<Rightarrow> (r, w\<lparr>currentFaker := fk\<rparr>))" for w
    by (simp add: lorem_word_def callFaker_def invoke_def split: member.splits option.splits prod.splits)
  show ?thesis
    by (rule providerOnlyI [where g = "\<lambda>fk.
        case matchFakerPath s of
          None \<Rightarrow> ?word fk
        | Some (path, argsStr) \<Rightarrow>
            (case walk (Member None (fakerMembers E fk)) (split_on CHR ''.'' path) of
               None \<Rightarrow> ?word fk
             | Some fakerFn \<Rightarrow>
                 (case callable fakerFn of
                    None \<Rightarrow> ?word fk
                  | Some fn \<Rightarrow>
                      (case argsStr of
                         None \<Rightarrow> fn [] fk
                       | Some a \<Rightarrow>
                           if a = [] then fn [] fk
                           else (case JSON_parse E a of
                                   None \<Rightarrow> fn [] fk
                                 | Some args \<Rightarrow>
                                     (case fn [args] fk of
                                        (Inr v, fk') \<Rightarrow> (Inr v, fk')
                                      | (Inl e, fk') \<Rightarrow> fn [] fk'))))) "])
      (simp add: executeFakerMethod_def word invoke_def split: option.splits prod.splits sum.splits)
qed


lemma providerOnly_override:
  assumes "case fieldConfig of
        None \<Rightarrow> True
      | Some (FunctionOverride f) \<Rightarrow> providerOnly f
      | Some (StringOverride s) \<Rightarrow> True
      | Some (ConfigOverride c) \<Rightarrow>
          (case transform c of None \<Rightarrow> True | Some t \<Rightarrow> \<forall>v. providerOnly (t v))"
    and "providerOnly otherwise"
  shows "providerOnly (spec_precedence E coerce fieldConfig otherwise)"
  using assms
  by (auto simp: spec_precedence_def providerOnly_map providerOnly_executeFakerMethod
      providerOnly_return
      intro!: providerOnly_bind split: option.splits override.splits)

lemma find_in_set: "find P xs = Some x \<Longrightarrow> x \<in> set xs"
  by (induction xs) (auto split: if_splits)

lemma providerOnly_heuristic: "providerOnly (spec_heuristic E k name)"
proof (cases "find (\<lambda>entry. fst entry name) (spec_table E k)")
  case None
  then have "spec_heuristic E k name = spec_default E k"
    by (simp add: spec_heuristic_def)
  then show ?thesis
    by (cases k) (simp_all add: providerOnly_callFaker)
next
  case (Some entry)
  then have "entry \<in> set (spec_table E k)"
    by (rule find_in_set)
  then have "providerOnly (snd entry)"
    by (cases k) (auto simp: providerOnly_callFaker)
  then show ?thesis
    using Some by (simp add: spec_heuristic_def)
qed

lemma providerOnly_primitive:
  assumes "pureConfig config"
  shows "providerOnly (generateFromAST E config (keyword k) path)"
proof -
  have "case config (getFieldName path) of
        None \<Rightarrow> True
      | Some (FunctionOverride f) \<Rightarrow> providerOnly f
      | Some (StringOverride s) \<Rightarrow> True
      | Some (ConfigOverride c) \<Rightarrow>
          (case transform c of None \<Rightarrow> True | Some t \<Rightarrow> \<forall>v. providerOnly (t v))"
    using assms unfolding pureConfig_def by blast
  then show ?thesis
    unfolding primitive_resolution
    by (rule providerOnly_override) (rule providerOnly_heuristic)
qed


lemma providerOnly_generateObject:
  assumes "\<And>p path. p \<in> set ps \<Longrightarrow> providerOnly (generateFromAST E config (snd p) path)"
  shows "providerOnly (generateObject E config ps basePath result)"
  using assms
proof (induction ps arbitrary: result)
  case Nil
  have "generateObject E config [] basePath result = returnJS (JObject result)"
    by (rule ext) (simp add: returnJS_def)
  then show ?case
    by (simp add: providerOnly_return)
next
  case (Cons p ps)
  obtain fieldName t where p: "p = (fieldName, t)"
    by (cases p)
  have "generateObject E config (p # ps) basePath result =
      bindJS (generateFromAST E config t
                (if basePath \<noteq> [] then basePath @ ''.'' @ fieldName else fieldName))
        (\<lambda>v. generateObject E config ps basePath (AList.update fieldName v result))"
    unfolding p by (rule ext) (simp add: bindJS_def split: prod.splits sum.splits)
  moreover have "providerOnly (generateFromAST E config t path)" for path
    using Cons.prems [of p path] p by simp
  moreover have "providerOnly (generateObject E config ps basePath r)" for r
    using Cons.IH Cons.prems by simp
  ultimately show ?case
    by (simp add: providerOnly_bind)
qed

lemma providerOnly_generateTuple:
  assumes "\<And>t path. t \<in> set ts \<Longrightarrow> providerOnly (generateFromAST E config t path)"
  shows "providerOnly (generateTuple E config ts path index)"
  using assms
proof (induction ts arbitrary: index)
  case Nil
  have "generateTuple E config [] path index = returnJS []"
    by (rule ext) (simp add: returnJS_def)
  then show ?case
    by (simp add: providerOnly_return)
next
  case (Cons t ts)
  have "generateTuple E config (t # ts) path index =
      bindJS (generateFromAST E config t (path @ ''['' @ showNat index @ '']''))
        (\<lambda>v. mapJS (\<lambda>vs. v # vs) (generateTuple E config ts path (Suc index)))"
    by (rule ext) (simp add: bindJS_def mapJS_def returnJS_def split: prod.splits sum.splits)
  moreover have "providerOnly (generateFromAST E config t p)" for p
    using Cons.prems [of t p] by simp
  moreover have "providerOnly (generateTuple E config ts path i)" for i
    using Cons.IH Cons.prems by simp
  ultimately show ?case
    by (simp add: providerOnly_bind providerOnly_map)
qed

lemma providerOnly_generateFromAST:
  assumes "pureConfig config"
  shows "unionFree a \<Longrightarrow> providerOnly (generateFromAST E config a path)"
proof (induction a arbitrary: path)
  case StringKeyword
  show ?case
    using providerOnly_primitive [OF assms, of E PString path] by (simp only: keyword.simps)
next
  case NumberKeyword
  show ?case
    using providerOnly_primitive [OF assms, of E PNumber path] by (simp only: keyword.simps)
next
  case BooleanKeyword
  show ?case
    using providerOnly_primitive [OF assms, of E PBoolean path] by (simp only: keyword.simps)
next
  case (TypeLiteral ps)
  have "providerOnly (generateFromAST E config (snd p) q)" if "p \<in> set ps" for p q
    using TypeLiteral.IH [of p "snd p" q] TypeLiteral.prems that by (cases p) auto
  then have "providerOnly (generateObject E config ps path [])"
    by (rule providerOnly_generateObject)
  moreover have "generateFromAST E config (TypeLiteral ps) path = generateObject E config ps path []"
    by (rule ext) simp
  ultimately show ?case
    by simp
next
  case (Union_ast ts)
  then show ?case by simp
next
  case (TupleType ts)
  have "providerOnly (generateFromAST E config t q)" if "t \<in> set ts" for t q
    using TupleType.IH [of t q] TupleType.prems that by auto
  then have "providerOnly (generateTuple E config ts path 0)"
    by (rule providerOnly_generateTuple)
  moreover have "generateFromAST E config (TupleType ts) path
      = mapJS JArray (generateTuple E config ts path 0)"
    by (rule ext) (simp add: mapJS_def bindJS_def returnJS_def split: prod.splits sum.splits)
  ultimately show ?case
    by (simp add: providerOnly_map)
next
  case (Refinement a)
  moreover have "generateFromAST E config (Refinement a) path = generateFromAST E config a path"
    by (rule ext) simp
  ultimately show ?case by simp
next
  case (Transformation a b)
  moreover have "generateFromAST E config (Transformation a b) path = generateFromAST E config a path"
    by (rule ext) simp
  ultimately show ?case by simp
next
  case (Declaration ts)
  show ?case
  proof (cases ts)
    case Nil
    then have "generateFromAST E config (Declaration ts) path = lorem_word E"
      by (intro ext) (simp only: generateDeclaration_default list.case)
    then show ?thesis
      by (simp add: lorem_word_def providerOnly_callFaker)
  next
    case (Cons t others)
    then have "generateFromAST E config (Declaration ts) path = generateFromAST E config t path"
      by (intro ext) (simp only: generateDeclaration_default list.case)
    moreover have "providerOnly (generateFromAST E config t path)"
      using Declaration.IH [of t path] Declaration.prems Cons by simp
    ultimately show ?thesis by simp
  qed
next
  case (Literal_ast v)
  have "generateFromAST E config (Literal_ast v) path = lorem_word E"
    by (rule ext) simp
  then show ?case
    by (simp add: lorem_word_def providerOnly_callFaker)
next
  case (OtherKeyword tag)
  have "generateFromAST E config (OtherKeyword tag) path = lorem_word E"
    by (rule ext) simp
  then show ?case
    by (simp add: lorem_word_def providerOnly_callFaker)
qed


lemma providerOnly_repeat: "providerOnly m \<Longrightarrow> providerOnly (repeatJS n m)"
  by (induction n) (simp_all add: providerOnly_return providerOnly_bind providerOnly_map)

lemma providerOnly_agree:
  assumes "providerOnly m" and "currentFaker w1 = currentFaker w2"
  shows "fst (m w1) = fst (m w2)"
    and "currentFaker (snd (m w1)) = currentFaker (snd (m w2))"
proof -
  obtain g where g: "\<And>w. m w = (case g (currentFaker w) of (r, fk) \<Rightarrow> (r, w\<lparr>currentFaker := fk\<rparr>))"
    using assms(1) unfolding providerOnly_def by blast
  show "fst (m w1) = fst (m w2)"
    and "currentFaker (snd (m w1)) = currentFaker (snd (m w2))"
    using assms(2) by (simp_all add: g split: prod.splits)
qed

lemma providerOnly_frame:
  assumes "providerOnly m"
  shows "snd (m w) = w\<lparr>currentFaker := currentFaker (snd (m w))\<rparr>"
proof -
  obtain g where g: "\<And>w. m w = (case g (currentFaker w) of (r, fk) \<Rightarrow> (r, w\<lparr>currentFaker := fk\<rparr>))"
    using assms unfolding providerOnly_def by blast
  show ?thesis
    by (simp add: g split: prod.splits)
qed

lemma providerOnly_seedFaker: "providerOnly (seedFaker E v)"
  unfolding seedFaker_def by (rule providerOnly_map) (rule providerOnly_callFaker)

lemma seedFaker_result:
  assumes "seedReliable E"
  shows "seedFaker E v w = (Inr (), w\<lparr>currentFaker := seedState E v (currentFaker w)\<rparr>)"
proof -
  let ?b = "\<lparr>currentFaker = currentFaker w, currentSeed = None, random = (\<lambda>n. 0)\<rparr>"
  have "currentFaker (snd (seedFaker E v w)) = currentFaker (snd (seedFaker E v ?b))"
    by (rule providerOnly_agree(2) [OF providerOnly_seedFaker]) simp
  then have "snd (seedFaker E v w) = w\<lparr>currentFaker := seedState E v (currentFaker w)\<rparr>"
    using providerOnly_frame [OF providerOnly_seedFaker, of E v w] by (simp add: seedState_def)
  moreover have "fst (seedFaker E v w) = Inr ()"
    using assms by (simp add: seedReliable_def)
  ultimately show ?thesis
    by (metis prod.collapse)
qed

lemma seeded_state:
  assumes "seedReliable E" and "seed_truthy sd"
  shows "bindJS (reapplySeed E) (\<lambda>u. seedStep E (Some (opts\<lparr>seed := Some sd\<rparr>))) w =
           (Inr (), w\<lparr>currentFaker := seedState E (seedValue sd) (currentFaker w),
                      currentSeed := Some (seedValue sd)\<rparr>)"
proof (cases "currentSeed w")
  case None
  then show ?thesis
    using assms(2)
    by (simp add: bindJS_def reapplySeed_def seedStep_def setupSeed_def seedFaker_result [OF assms(1)])
next
  case (Some v0)
  have "seedState E (seedValue sd) (seedState E v0 (currentFaker w))
      = seedState E (seedValue sd) (currentFaker w)"
    using assms(1) by (simp add: seedReliable_def)
  then show ?thesis
    using assms(2) Some
    by (simp add: bindJS_def reapplySeed_def seedStep_def setupSeed_def seedFaker_result [OF assms(1)])
qed


lemma generateSync_seeded:
  assumes "seedReliable E" and "seed opts = Some sd" and "seed_truthy sd"
    and "localeStep E (Some opts) w = reapplySeed E w0"
  shows "generateSync E schema config (Some opts) w =
           repeatJS (nat (countOf (Some opts))) (generateFromAST E config schema [])
             (w0\<lparr>currentFaker := seedState E (seedValue sd) (currentFaker w0),
                 currentSeed := Some (seedValue sd)\<rparr>)"
proof -
  have opts: "opts\<lparr>seed := Some sd\<rparr> = opts"
    using assms(2) by simp
  have "bindJS (localeStep E (Some opts)) (\<lambda>u. bindJS (seedStep E (Some opts)) k) w =
      bindJS (bindJS (reapplySeed E) (\<lambda>u. seedStep E (Some opts))) (\<lambda>u. k u) w0"
    for k :: "unit \<Rightarrow> ('a world, jsval list) js"
    by (simp add: bindJS_def assms(4) split: prod.splits sum.splits)
  then show ?thesis
    using seeded_state [OF assms(1,3), of opts w0]
    by (simp add: generateSync_repeat opts bindJS_def)
qed

lemma seeded_calls_agree:
  assumes "unionFree schema" and "pureConfig config" and "seedReliable E"
    and "seed opts = Some sd" and "seed_truthy sd"
    and "locale_field opts = Some loc" and "locale_truthy loc"
  shows "fst (generateSync E schema config (Some opts) w1)
       = fst (generateSync E schema config (Some opts) w2)"
proof -
  let ?run = "repeatJS (nat (countOf (Some opts))) (generateFromAST E config schema [])"
  let ?seeded = "\<lambda>u. u\<lparr>currentFaker := seedState E (seedValue sd) (currentFaker u),
                         currentSeed := Some (seedValue sd)\<rparr>"
  have run: "providerOnly ?run"
    by (rule providerOnly_repeat) (rule providerOnly_generateFromAST [OF assms(2,1)])
  have agree: ?thesis
    if "localeStep E (Some opts) w1 = reapplySeed E u1"
      and "localeStep E (Some opts) w2 = reapplySeed E u2"
      and "seedState E (seedValue sd) (currentFaker u1) = seedState E (seedValue sd) (currentFaker u2)"
    for u1 u2
    using providerOnly_agree(1) [OF run, of "?seeded u1" "?seeded u2"] that(3)
    by (simp add: generateSync_seeded [OF assms(3,4,5) that(1)]
        generateSync_seeded [OF assms(3,4,5) that(2)])
  have constructed:
    "seedState E (seedValue sd) (currentFaker (constructFaker E d w1))
     = seedState E (seedValue sd) (currentFaker (constructFaker E d w2))" for d
  proof -
    have "currentFaker (constructFaker E d w) = fst (newFaker E d (random w))" for w
      by (simp add: constructFaker_def split: prod.splits)
    then show ?thesis
      using assms(3) by (simp add: seedReliable_def)
  qed
  show ?thesis
  proof (cases loc)
    case (LocaleCode code)
    show ?thesis
    proof (cases "allLocales_get E code")
      case None
      then have "localeStep E (Some opts) w = (Inl (localeNotFound E code), w)" for w
        using assms(6,7) LocaleCode by (simp add: localeStep_def setupLocale_def)
      then show ?thesis
        by (simp add: generateSync_def bindJS_def)
    next
      case (Some d)
      then have step: "localeStep E (Some opts) w = reapplySeed E (constructFaker E d w)" for w
        using assms(6,7) LocaleCode by (simp add: localeStep_def setupLocale_def)
      show ?thesis
        by (rule agree [OF step step constructed])
    qed
  next
    case (LocaleDefinition d)
    then have step: "localeStep E (Some opts) w = reapplySeed E (constructFaker E d w)" for w
      using assms(6) by (simp add: localeStep_def setupLocale_def)
    show ?thesis
      by (rule agree [OF step step constructed])
  next
    case (FakerInstance fk)
    then have step: "localeStep E (Some opts) w = reapplySeed E (w\<lparr>currentFaker := fk\<rparr>)" for w
      using assms(6) by (simp add: localeStep_def setupLocale_def)
    show ?thesis
      by (rule agree [OF step step]) simp
  qed
qed

lemma toy_seedFaker:
  "seedFaker toyEnv v w = (Inr (), w\<lparr>currentFaker := (fst (currentFaker w), nat v)\<rparr>)"
  by (simp add: eval_defs)

lemma toy_seedReliable: "seedReliable toyEnv"
  by (simp add: seedReliable_def seedState_def toy_seedFaker) (simp add: toyEnv_def)

lemma toy_pureConfig: "pureConfig toyConfig"
  by (simp add: pureConfig_def toyConfig_def providerOnly_return)

lemma toy_seeded_calls_agree:
  "fst (generateSync toyEnv (TypeLiteral [(''email'', StringKeyword), (''age'', NumberKeyword)])
          toyConfig
          (Some \<lparr>count = Some 2, seed = Some (SeedString [120]),
                 locale_field = Some (LocaleCode ''fr'')\<rparr>) w1)
   = fst (generateSync toyEnv (TypeLiteral [(''email'', StringKeyword), (''age'', NumberKeyword)])
          toyConfig
          (Some \<lparr>count = Some 2, seed = Some (SeedString [120]),
                 locale_field = Some (LocaleCode ''fr'')\<rparr>) w2)"
  by (rule seeded_calls_agree [where sd = "SeedString [120]" and loc = "LocaleCode ''fr''",
        OF _ toy_pureConfig toy_seedReliable]) simp_all

text \<open>
  C1 on the code. A union of two literals, the seed \<^verbatim>\<open>x\<close>, the locale \<^verbatim>\<open>en\<close>, one
  item: the first call returns \<^verbatim>\<open>a\<close>, and the same call made again returns \<^verbatim>\<open>b\<close>, when
  \<^verbatim>\<open>Math.random\<close> draws \<open>0\<close> and then \<open>1/2\<close>. The seed resets the provider, not
  \<^verbatim>\<open>Math.random\<close>, which \<^verbatim>\<open>generateUnion\<close> alone draws from.
\<close>

theorem union_not_reproducible:
  "fst (generateSync toyEnv
          (Union_ast [Literal_ast (JString ''a''), Literal_ast (JString ''b'')]) noConfig
          (Some \<lparr>count = Some 1, seed = Some (SeedString [120]),
                 locale_field = Some (LocaleCode ''en'')\<rparr>)
          (toyWorld [0, 1 / 2]))
     = Inr [JString ''a'']
   \<and> fst (generateSync toyEnv
          (Union_ast [Literal_ast (JString ''a''), Literal_ast (JString ''b'')]) noConfig
          (Some \<lparr>count = Some 1, seed = Some (SeedString [120]),
                 locale_field = Some (LocaleCode ''en'')\<rparr>)
          (snd (generateSync toyEnv
                  (Union_ast [Literal_ast (JString ''a''), Literal_ast (JString ''b'')]) noConfig
                  (Some \<lparr>count = Some 1, seed = Some (SeedString [120]),
                         locale_field = Some (LocaleCode ''en'')\<rparr>)
                  (toyWorld [0, 1 / 2]))))
     = Inr [JString ''b'']"
  by (simp add: generateSync_repeat eval_defs roundDouble_values toInt32_def shiftLeft5_def)

end
